theory Spec2Isabelle
  imports Complex_Main
begin

section \<open>Weapons: equipment slots\<close>

text \<open>
  \<^verbatim>\<open>CrucibleWeapon.WEAPON_SLOTS\<close> is the frozen enum
  \<^verbatim>\<open>{EITHER: 0, MAINHAND: 1, OFFHAND: 2, TWOHAND: 3}\<close>.  The datatype keeps the
  names; \<open>slot_value\<close> gives the number the source stores.
\<close>

datatype weapon_slot = EITHER | MAINHAND | OFFHAND | TWOHAND

fun slot_value :: "weapon_slot \<Rightarrow> nat" where
  "slot_value EITHER = 0"
| "slot_value MAINHAND = 1"
| "slot_value OFFHAND = 2"
| "slot_value TWOHAND = 3"

text \<open>
  A weapon category as the \<^verbatim>\<open>CATEGORIES\<close> table of the weapon configuration has it.
  Only the mechanical fields are kept; \<open>ranged\<close> is absent from some entries of the
  table, which JavaScript reads as a falsy value.
\<close>

record weapon_category =
  hands :: int
  main :: bool
  off :: bool
  ranged :: bool

record weapon =
  category :: weapon_category
  properties :: "string set"

text \<open>
  \<^verbatim>\<open>
  getAllowedEquipmentSlots() {
    const SLOTS = this.constructor.WEAPON_SLOTS;
    const category = this.config.category;
    if ( category.hands === 2 ) return [SLOTS.TWOHAND];
    const slots = [SLOTS.MAINHAND];
    if ( category.off ) {
      slots.unshift(SLOTS.EITHER);
      slots.push(SLOTS.OFFHAND);
    }
    if ( this.properties.has("versatile") ) slots.push(SLOTS.TWOHAND);
    return slots;
  }
  \<close>
\<close>

definition getAllowedEquipmentSlots :: "weapon \<Rightarrow> weapon_slot list" where
  "getAllowedEquipmentSlots w =
     (if hands (category w) = 2 then [TWOHAND]
      else
        let slots = [MAINHAND];
            slots = (if off (category w) then (EITHER # slots) @ [OFFHAND] else slots);
            slots = (if ''versatile'' \<in> properties w then slots @ [TWOHAND] else slots)
        in slots)"

text \<open>The thirteen entries of the \<^verbatim>\<open>CATEGORIES\<close> table, in the order of the source.\<close>

definition mk_category :: "int \<Rightarrow> bool \<Rightarrow> bool \<Rightarrow> bool \<Rightarrow> weapon_category" where
  "mk_category h m f r = \<lparr>hands = h, main = m, off = f, ranged = r\<rparr>"

definition CATEGORIES :: "(string \<times> weapon_category) list" where
  "CATEGORIES =
    [(''light1'', mk_category 1 True True False),
     (''simple1'', mk_category 1 True True False),
     (''balanced1'', mk_category 1 True True False),
     (''heavy1'', mk_category 1 True False False),
     (''massive1'', mk_category 1 True False False),
     (''simple2'', mk_category 2 True False False),
     (''balanced2'', mk_category 2 True False False),
     (''heavy2'', mk_category 2 True False False),
     (''massive2'', mk_category 2 True False False),
     (''projectile2'', mk_category 2 True False True),
     (''mechanical1'', mk_category 1 True True True),
     (''mechanical2'', mk_category 2 True False True),
     (''shield'', mk_category 1 False True False)]"


section \<open>Actor equipment: the equipped armor\<close>

text \<open>
  An inventory item, as far as equipment resolution reads it: its name and the
  \<^verbatim>\<open>system.equipped\<close> flag.
\<close>

record item =
  item_name :: string
  equipped :: bool

text \<open>
  In \<^verbatim>\<open>_prepareArmor\<close> the variable \<^verbatim>\<open>armors\<close> first holds the filtered array and,
  after \<^verbatim>\<open>armors = armors[0]\<close>, a single item document.  \<open>js_index0\<close> is the
  JavaScript expression \<^verbatim>\<open>armors[0]\<close> on either: the first element of an array
  (\<^verbatim>\<open>undefined\<close>, here \<open>None\<close>, when it is empty), and \<^verbatim>\<open>undefined\<close> on an item
  document, which has no property named \<^verbatim>\<open>0\<close>.
\<close>

datatype armors_value = Armor_Array "item list" | Armor_Item item

fun js_index0 :: "armors_value \<Rightarrow> item option" where
  "js_index0 (Armor_Array []) = None"
| "js_index0 (Armor_Array (x # xs)) = Some x"
| "js_index0 (Armor_Item i) = None"

text \<open>
  \<^verbatim>\<open>
  _prepareArmor(armorItems) {
    let armors = armorItems.filter(i => i.system.equipped);
    if ( armors.length > 1 ) {
      ui.notifications.warn(`Actor ${this.name} has more than one equipped armor.`);
      armors = armors[0];
    }
    return armors[0] || this._getUnarmoredArmor();
  }
  \<close>
  The model returns the warnings raised together with the armor.  The item built by
  \<^verbatim>\<open>_getUnarmoredArmor\<close> from \<^verbatim>\<open>SYSTEM.ARMOR.UNARMORED_DATA\<close> is the parameter
  \<open>unarmored\<close>: the table belongs to the armor configuration.  An item document is
  an object and therefore truthy, so \<^verbatim>\<open>||\<close> falls through exactly on \<^verbatim>\<open>undefined\<close>.
\<close>

definition getUnarmoredArmor :: "item \<Rightarrow> item" where
  "getUnarmoredArmor unarmored = unarmored"

definition prepareArmor :: "string \<Rightarrow> item \<Rightarrow> item list \<Rightarrow> string list \<times> item" where
  "prepareArmor actor_name unarmored armorItems =
     (let armors = filter equipped armorItems;
          (warnings, armors) =
             (if length armors > 1
              then ([''Actor '' @ actor_name @ '' has more than one equipped armor.''],
                    (case armors of a # _ \<Rightarrow> Armor_Item a | [] \<Rightarrow> Armor_Array []))
              else ([], Armor_Array armors))
      in (warnings,
          (case js_index0 armors of
             Some a \<Rightarrow> a
           | None \<Rightarrow> getUnarmoredArmor unarmored)))"


section \<open>Actor: ability point-buy\<close>

text \<open>
  An ability score of \<^verbatim>\<open>system.abilities\<close> and the counters of \<^verbatim>\<open>points.ability\<close>, with
  the fields \<^verbatim>\<open>canPurchaseAbility\<close> reads.  The numbers are integers.
\<close>

record ability =
  base :: int
  increases :: int
  ability_value :: int

record ability_points =
  pool :: int
  available :: int

text \<open>
  \<^verbatim>\<open>
  canPurchaseAbility(ability, delta=1) {
    delta = Math.sign(delta);
    const points = this.points.ability;
    const a = this.system.abilities[ability];
    if ( !a || !delta ) return;

    // Case 1 - Point Buy
    if ( this.isL0 ) {
      if ( (delta > 0) && ((a.base === 3) || !points.pool) ) return false;
      else if ( (delta < 0) && (a.base === 0) ) return false;
      return true;
    }

    // Case 2 - Regular Increase
    else {
      if ( (delta > 0) && ((a.value === 12) || !points.available) ) return false;
      else if ( (delta < 0) && (a.increases === 0) ) return false;
      return true;
    }
  }
  \<close>
  The bare \<^verbatim>\<open>return;\<close> yields \<^verbatim>\<open>undefined\<close>, modelled as \<open>None\<close>.  On an integer,
  \<^verbatim>\<open>!n\<close> is \<open>n = 0\<close>.  \<open>level\<close> is \<^verbatim>\<open>system.advancement.level\<close>, so \<^verbatim>\<open>isL0\<close> is
  \<open>level = 0\<close>; \<open>abilities\<close> is \<^verbatim>\<open>system.abilities\<close>, keyed by ability id.
\<close>

definition canPurchaseAbility ::
  "int \<Rightarrow> (string \<rightharpoonup> ability) \<Rightarrow> ability_points \<Rightarrow> string \<Rightarrow> int \<Rightarrow> bool option" where
  "canPurchaseAbility level abilities points abil delta0 =
     (let delta = sgn delta0 in
      case abilities abil of
        None \<Rightarrow> None
      | Some a \<Rightarrow>
          if delta = 0 then None
          else if level = 0 then
            (if delta > 0 \<and> (base a = 3 \<or> pool points = 0) then Some False
             else if delta < 0 \<and> base a = 0 then Some False
             else Some True)
          else
            (if delta > 0 \<and> (ability_value a = 12 \<or> available points = 0) then Some False
             else if delta < 0 \<and> increases a = 0 then Some False
             else Some True))"


section \<open>Actor: expiry of active effects\<close>

text \<open>
  The duration of an active effect: \<^verbatim>\<open>startRound\<close> is a number or \<^verbatim>\<open>null\<close> (the
  effect generators write \<^verbatim>\<open>game.combat?.round || null\<close>), \<^verbatim>\<open>rounds\<close> is a number or
  \<^verbatim>\<open>null\<close>/\<^verbatim>\<open>undefined\<close>.  \<open>None\<close> stands for the missing value.  The origin of an
  effect is a document uuid or \<^verbatim>\<open>null\<close>.
\<close>

record duration =
  startRound :: "int option"
  rounds :: "int option"

record effect =
  effect_id :: string
  origin :: "string option"
  duration :: duration

text \<open>In the sum \<^verbatim>\<open>startRound + rounds\<close> JavaScript converts \<^verbatim>\<open>null\<close> to 0.\<close>

fun js_number :: "int option \<Rightarrow> int" where
  "js_number None = 0"
| "js_number (Some n) = n"

text \<open>
  \<^verbatim>\<open>
  #isEffectExpired(effect, start=true) {
    const {startRound, rounds} = effect.duration;
    if ( !Number.isNumeric(rounds) ) return false;
    const isSelf = effect.origin === this.uuid;
    const remaining = (startRound + rounds) - game.combat.round;

    // Self effects expire at the beginning of your next turn
    if ( isSelf ) return remaining <=0;

    // Effects from others expire at the end of your turn
    else {
      if ( start ) return remaining < 0;
      else return remaining <= 0;
    }
  }
  \<close>
  \<open>uuid\<close> is \<^verbatim>\<open>this.uuid\<close> and \<open>combat_round\<close> is \<^verbatim>\<open>game.combat.round\<close>.
\<close>

definition isEffectExpired :: "string \<Rightarrow> int \<Rightarrow> effect \<Rightarrow> bool \<Rightarrow> bool" where
  "isEffectExpired uuid combat_round eff start =
     (case rounds (duration eff) of
        None \<Rightarrow> False
      | Some rnds \<Rightarrow>
          let isSelf = (origin eff = Some uuid);
              remaining = (js_number (startRound (duration eff)) + rnds) - combat_round
          in if isSelf then remaining \<le> 0
             else if start then remaining < 0
             else remaining \<le> 0)"

text \<open>
  \<^verbatim>\<open>
  async expireEffects(start=true) {
    const toDelete = [];
    for ( const effect of this.effects ) {
      if ( this.#isEffectExpired(effect, start) ) toDelete.push(effect.id);
    }
    await this.deleteEmbeddedDocuments("ActiveEffect", toDelete);
  }
  \<close>
  The model returns the ids handed to the host for deletion and the effects that are
  left once the host has deleted them.
\<close>

definition expireEffects :: "string \<Rightarrow> int \<Rightarrow> effect list \<Rightarrow> bool \<Rightarrow> string list \<times> effect list" where
  "expireEffects uuid combat_round effects start =
     (let toDelete = map effect_id (filter (\<lambda>e. isEffectExpired uuid combat_round e start) effects)
      in (toDelete, filter (\<lambda>e. effect_id e \<notin> set toDelete) effects))"

text \<open>
  \<^verbatim>\<open>onBeginTurn\<close> calls \<^verbatim>\<open>expireEffects(true)\<close> and \<^verbatim>\<open>onEndTurn\<close> calls
  \<^verbatim>\<open>expireEffects(false)\<close>.  \<open>turn_events r k\<close> lists the evaluations an actor makes
  over \<open>k\<close> rounds from round \<open>r\<close>: for each round the start of its turn, then the end,
  each as the pair of \<^verbatim>\<open>game.combat.round\<close> and the \<^verbatim>\<open>start\<close> flag.
  \<open>first_expiry\<close> is the first of these evaluations that judges an effect expired.
\<close>

fun turn_events :: "int \<Rightarrow> nat \<Rightarrow> (int \<times> bool) list" where
  "turn_events r 0 = []"
| "turn_events r (Suc k) = (r, True) # (r, False) # turn_events (r + 1) k"

definition first_expiry :: "string \<Rightarrow> effect \<Rightarrow> (int \<times> bool) list \<Rightarrow> (int \<times> bool) option" where
  "first_expiry uuid eff evs = List.find (\<lambda>(r, start). isEffectExpired uuid r eff start) evs"


section \<open>Actor: resource pools\<close>

text \<open>
  The seven resource pools of \<^verbatim>\<open>system.resources\<close>, each with a current value and a
  maximum.  \<open>get_resource\<close> is the lookup \<^verbatim>\<open>r[resourceName]\<close>, \<^verbatim>\<open>undefined\<close> (here
  \<open>None\<close>) for any other name.
\<close>

record resource =
  res_value :: int
  res_max :: int

record resources =
  health :: resource
  wounds :: resource
  morale :: resource
  madness :: resource
  action :: resource
  focus :: resource
  heroism :: resource

definition get_resource :: "resources \<Rightarrow> string \<Rightarrow> resource option" where
  "get_resource r resourceName =
     (if resourceName = ''health'' then Some (health r)
      else if resourceName = ''wounds'' then Some (wounds r)
      else if resourceName = ''morale'' then Some (morale r)
      else if resourceName = ''madness'' then Some (madness r)
      else if resourceName = ''action'' then Some (action r)
      else if resourceName = ''focus'' then Some (focus r)
      else if resourceName = ''heroism'' then Some (heroism r)
      else None)"

text \<open>
  The host's \<^verbatim>\<open>Math.clamped(num, min, max)\<close> is \<^verbatim>\<open>Math.min(max, Math.max(num, min))\<close>.
\<close>

definition clamped :: "int \<Rightarrow> int \<Rightarrow> int \<Rightarrow> int" where
  "clamped num lo hi = min hi (max num lo)"

datatype error = TypeError | ConflictError string

text \<open>
  The update object is keyed by the path \<^verbatim>\<open>system.resources.<name>.value\<close>; the model
  keys it by \<open><name>\<close>, which determines the path.

  \<^verbatim>\<open>
  async alterResources(changes, updates={}, {statusText}={}) {
    const r = this.system.resources;
    let tookWounds = false;
    let tookMadness = false;

    // Apply resource updates
    for ( let [resourceName, delta] of Object.entries(changes) ) {
      let resource = r[resourceName];
      const uncapped = resource.value + delta;
      let overflow = Math.min(uncapped, 0);

      // Overflow health onto wounds (double damage)
      if ( (resourceName === "health") && (overflow !== 0) ) {
        tookWounds = true;
        updates["system.resources.wounds.value"] = Math.clamped(r.wounds.value - overflow, 0, r.wounds.max);
      }
      else if ( resourceName === "wounds" ) tookWounds = true;

      // Overflow morale onto madness (double damage)
      if ( (resourceName === "morale") && (overflow !== 0) ) {
        const madness = this.system.resources.madness.value - overflow;
        updates["system.resources.madness.value"] = Math.clamped(madness, 0, r.madness.max);
      }
      else if ( resourceName === "madness" ) tookMadness = true;

      // Regular update
      updates[`system.resources.${resourceName}.value`] = Math.clamped(uncapped, 0, resource.max);
    }
    return this.update(updates, {statusText});
  }
  \<close>
  \<open>changes\<close> is the list \<^verbatim>\<open>Object.entries(changes)\<close>.  The locals \<^verbatim>\<open>tookWounds\<close> and
  \<^verbatim>\<open>tookMadness\<close> are written and never read, so the model leaves them out.  Reading
  \<^verbatim>\<open>resource.value\<close> of an unknown resource name throws a \<^verbatim>\<open>TypeError\<close>.
  \<open>alterResources_updates\<close> is the loop: it builds the update object.
\<close>

fun alterResources_updates ::
  "resources \<Rightarrow> (string \<times> int) list \<Rightarrow> (string \<rightharpoonup> int) \<Rightarrow> error + (string \<rightharpoonup> int)" where
  "alterResources_updates r [] updates = Inr updates"
| "alterResources_updates r ((resourceName, delta) # changes) updates =
     (case get_resource r resourceName of
        None \<Rightarrow> Inl TypeError
      | Some res \<Rightarrow>
          let uncapped = res_value res + delta;
              overflow = min uncapped 0;
              updates = (if resourceName = ''health'' \<and> overflow \<noteq> 0
                         then updates(''wounds'' \<mapsto>
                                clamped (res_value (wounds r) - overflow) 0 (res_max (wounds r)))
                         else updates);
              updates = (if resourceName = ''morale'' \<and> overflow \<noteq> 0
                         then updates(''madness'' \<mapsto>
                                clamped (res_value (madness r) - overflow) 0 (res_max (madness r)))
                         else updates);
              updates = updates(resourceName \<mapsto> clamped uncapped 0 (res_max res))
          in alterResources_updates r changes updates)"

text \<open>
  \<^verbatim>\<open>this.update(updates)\<close> writes each \<^verbatim>\<open>system.resources.<name>.value\<close> of the update
  object into the actor; \<open>apply_updates\<close> is that write on the resource pools.
\<close>

definition set_value :: "(string \<rightharpoonup> int) \<Rightarrow> string \<Rightarrow> resource \<Rightarrow> resource" where
  "set_value updates resourceName res =
     (case updates resourceName of None \<Rightarrow> res | Some v \<Rightarrow> res\<lparr>res_value := v\<rparr>)"

definition apply_updates :: "(string \<rightharpoonup> int) \<Rightarrow> resources \<Rightarrow> resources" where
  "apply_updates updates r =
     \<lparr>health = set_value updates ''health'' (health r),
      wounds = set_value updates ''wounds'' (wounds r),
      morale = set_value updates ''morale'' (morale r),
      madness = set_value updates ''madness'' (madness r),
      action = set_value updates ''action'' (action r),
      focus = set_value updates ''focus'' (focus r),
      heroism = set_value updates ''heroism'' (heroism r)\<rparr>"

definition alterResources :: "resources \<Rightarrow> (string \<times> int) list \<Rightarrow> error + resources" where
  "alterResources r changes =
     (case alterResources_updates r changes Map.empty of
        Inl e \<Rightarrow> Inl e
      | Inr updates \<Rightarrow> Inr (apply_updates updates r))"


section \<open>Actor: testing a defense\<close>

text \<open>
  The members of \<^verbatim>\<open>AttackRoll.RESULT_TYPES\<close> that \<^verbatim>\<open>testDefense\<close> returns.
\<close>

datatype result_type = HIT | DODGE | PARRY | BLOCK | DEFLECT | EFFECTIVE | RESIST

text \<open>
  \<^verbatim>\<open>system.defenses\<close>: the number \<^verbatim>\<open>d.physical\<close>, which \<^verbatim>\<open>testDefense\<close> compares and
  multiplies directly, and for every named defense its \<^verbatim>\<open>total\<close>.
\<close>

record defenses =
  physical :: int
  total :: "string \<rightharpoonup> int"

text \<open>
  \<^verbatim>\<open>
  testDefense(defenseType, rollTotal, dc) {
    const d = this.system.defenses;

    // Physical Defense
    if ( defenseType === "physical" ) {
      dc = d.physical;

      // Hit
      if ( rollTotal > dc ) return AttackRoll.RESULT_TYPES.HIT;

      // Dodge
      const r = twist.random() * d.physical;
      const dodge = d.dodge.total;
      if ( r <= dodge ) return AttackRoll.RESULT_TYPES.DODGE;

      // Parry
      const parry = dodge + d.parry.total;
      if ( r <= parry ) return AttackRoll.RESULT_TYPES.PARRY;

      // Block
      const block = dodge + d.block.total;
      if ( r <= block ) return AttackRoll.RESULT_TYPES.BLOCK;

      // Armor
      return AttackRoll.RESULT_TYPES.DEFLECT;
    }

    // Other Defenses
    else {
      if ( defenseType ) dc = d[defenseType].total;
      if ( rollTotal > dc ) return AttackRoll.RESULT_TYPES.EFFECTIVE;
      else return AttackRoll.RESULT_TYPES.RESIST;
    }
  }
  \<close>
  The value drawn by \<^verbatim>\<open>twist.random()\<close>, a number \<open>u\<close> with \<open>0 \<le> u < 1\<close>, is an
  argument of the model, and \<open>r = u * physical\<close> is computed over the reals.  The
  empty string is the falsy \<^verbatim>\<open>defenseType\<close>; a missing \<^verbatim>\<open>dc\<close> is \<open>None\<close>, against
  which every comparison is false.  Reading \<^verbatim>\<open>.total\<close> of a defense the actor does not
  have throws a \<^verbatim>\<open>TypeError\<close>.
\<close>

definition testDefense ::
  "defenses \<Rightarrow> string \<Rightarrow> int \<Rightarrow> int option \<Rightarrow> real \<Rightarrow> error + result_type" where
  "testDefense d defenseType rollTotal dc u =
     (if defenseType = ''physical'' then
        (if rollTotal > physical d then Inr HIT
         else
           let r = u * real_of_int (physical d) in
           case total d ''dodge'' of
             None \<Rightarrow> Inl TypeError
           | Some dodge \<Rightarrow>
               if r \<le> real_of_int dodge then Inr DODGE
               else
                 (case total d ''parry'' of
                    None \<Rightarrow> Inl TypeError
                  | Some p \<Rightarrow>
                      let parry = dodge + p in
                      if r \<le> real_of_int parry then Inr PARRY
                      else
                        (case total d ''block'' of
                           None \<Rightarrow> Inl TypeError
                         | Some b \<Rightarrow>
                             let block = dodge + b in
                             if r \<le> real_of_int block then Inr BLOCK
                             else Inr DEFLECT)))
      else
        (case (if defenseType \<noteq> [] then map_option Some (total d defenseType) else Some dc) of
           None \<Rightarrow> Inl TypeError
         | Some dc' \<Rightarrow>
             (case dc' of
                None \<Rightarrow> Inr RESIST
              | Some n \<Rightarrow> if rollTotal > n then Inr EFFECTIVE else Inr RESIST)))"


section \<open>Actor: talents and actions\<close>

text \<open>
  An action, identified by its id, and an owned talent item: its id, the spellcraft
  components \<^verbatim>\<open>system.rune\<close>, \<^verbatim>\<open>system.gesture\<close> and \<^verbatim>\<open>system.inflection\<close> it teaches
  (\<open>None\<close> when the field is \<^verbatim>\<open>undefined\<close> or \<^verbatim>\<open>null\<close>), and the actions it grants.
  \<open>js_truthy\<close> is the truth value JavaScript gives such a field in a condition: an
  unset field and the empty string are falsy, every other string is truthy.
\<close>

record action =
  action_id :: string
  action_name :: string

record talent =
  talent_id :: string
  talent_rune :: "string option"
  talent_gesture :: "string option"
  talent_inflection :: "string option"
  talent_actions :: "action list"

definition js_truthy :: "string option \<Rightarrow> bool" where
  "js_truthy v = (case v of None \<Rightarrow> False | Some s \<Rightarrow> s \<noteq> [])"

text \<open>
  The keys of the tables \<^verbatim>\<open>RUNES\<close>, \<^verbatim>\<open>GESTURES\<close> and \<^verbatim>\<open>INFLECTIONS\<close> of the spellcraft
  configuration.  A component is identified by its key; \<open>table_lookup\<close> is the
  JavaScript lookup \<^verbatim>\<open>TABLE[key]\<close>, with \<open>None\<close> for \<^verbatim>\<open>undefined\<close>.  The grimoire sets
  hold the results of such lookups, so their elements are of type \<open>string option\<close>
  (a \<^verbatim>\<open>Set\<close> may hold \<^verbatim>\<open>undefined\<close>).
\<close>

definition RUNES :: "string list" where
  "RUNES = [''courage'', ''death'', ''earth'', ''flame'', ''frost'', ''kinesis'', ''life'',
            ''lightning'', ''mind'', ''radiance'', ''time'', ''void'']"

definition GESTURES :: "string list" where
  "GESTURES = [''arrow'', ''aspect'', ''create'', ''fan'', ''influence'', ''ray'', ''step'',
               ''strike'', ''touch'', ''ward'']"

definition INFLECTIONS :: "string list" where
  "INFLECTIONS = [''extend'', ''negate'', ''pull'', ''push'']"

definition table_lookup :: "string list \<Rightarrow> string \<Rightarrow> string option" where
  "table_lookup keys k = (if k \<in> set keys then Some k else None)"

record grimoire =
  runes :: "string option set"
  gestures :: "string option set"
  inflections :: "string option set"

record talent_points =
  tp_total :: int
  tp_spent :: int
  tp_available :: int

record talent_state =
  talentIds :: "string set"
  known :: grimoire
  points_talent :: talent_points
  warnings :: "string list"

text \<open>
  \<^verbatim>\<open>
  _prepareTalents({talent}={}) {
    this.talentIds = new Set();
    this.grimoire = {runes: new Set(), gestures: new Set(), inflections: new Set()};
    const points = this.system.points.talent;

    // Iterate over talents
    for ( const t of talent ) {
      this.talentIds.add(t.id);
      points.spent += 1; // TODO - every talent costs 1 for now

      // Register spellcraft knowledge
      if ( t.system.rune ) {
        this.grimoire.runes.add(SYSTEM.SPELL.RUNES[t.system.rune]);
        if ( !this.grimoire.gestures.size ) this.grimoire.gestures.add(SYSTEM.SPELL.GESTURES.touch);
      }
      if ( t.system.gesture ) this.grimoire.gestures.add(SYSTEM.SPELL.GESTURES[t.system.gesture]);
      if ( t.system.inflection ) this.grimoire.inflections.add(SYSTEM.SPELL.INFLECTIONS[t.system.inflection]);
    }

    // Warn if the Actor does not have a legal build
    points.available = points.total - points.spent;
    if ( points.available < 0) {
      ui.notifications?.warn(`Actor ${this.name} has more Talents unlocked than they have talent points available.`);
    }
  }
  \<close>
  \<open>prepareTalent\<close> is the body of the loop for one talent, \<open>prepareTalents_loop\<close> the
  loop.  \<open>known\<close> is \<^verbatim>\<open>this.grimoire\<close>.  The three conditions on \<^verbatim>\<open>t.system\<close> test
  truthiness, so a field holding the empty string teaches nothing.  The warning goes to
  the host's notification interface \<^verbatim>\<open>ui.notifications\<close>, which the model takes to be
  there.
\<close>

definition prepareTalent :: "talent \<Rightarrow> talent_state \<Rightarrow> talent_state" where
  "prepareTalent t st =
     (let ids = insert (talent_id t) (talentIds st);
          points = (points_talent st)\<lparr>tp_spent := tp_spent (points_talent st) + 1\<rparr>;
          g = known st;
          g = (case talent_rune t of
                 None \<Rightarrow> g
               | Some rn \<Rightarrow>
                   if rn = [] then g
                   else
                     let g = g\<lparr>runes := insert (table_lookup RUNES rn) (runes g)\<rparr>
                     in if gestures g = {}
                        then g\<lparr>gestures := insert (table_lookup GESTURES ''touch'') (gestures g)\<rparr>
                        else g);
          g = (case talent_gesture t of
                 None \<Rightarrow> g
               | Some ge \<Rightarrow>
                   if ge = [] then g
                   else g\<lparr>gestures := insert (table_lookup GESTURES ge) (gestures g)\<rparr>);
          g = (case talent_inflection t of
                 None \<Rightarrow> g
               | Some i \<Rightarrow>
                   if i = [] then g
                   else g\<lparr>inflections := insert (table_lookup INFLECTIONS i) (inflections g)\<rparr>)
      in st\<lparr>talentIds := ids, known := g, points_talent := points\<rparr>)"

fun prepareTalents_loop :: "talent list \<Rightarrow> talent_state \<Rightarrow> talent_state" where
  "prepareTalents_loop [] st = st"
| "prepareTalents_loop (t # ts) st = prepareTalents_loop ts (prepareTalent t st)"

definition prepareTalents :: "string \<Rightarrow> talent_points \<Rightarrow> talent list \<Rightarrow> talent_state" where
  "prepareTalents actor_name points talents =
     (let st = prepareTalents_loop talents
                 \<lparr>talentIds = {}, known = \<lparr>runes = {}, gestures = {}, inflections = {}\<rparr>,
                  points_talent = points, warnings = []\<rparr>;
          points = points_talent st;
          points = points\<lparr>tp_available := tp_total points - tp_spent points\<rparr>;
          st = st\<lparr>points_talent := points\<rparr>
      in if tp_available points < 0
         then st\<lparr>warnings := warnings st @
                [''Actor '' @ actor_name @
                 '' has more Talents unlocked than they have talent points available.'']\<rparr>
         else st)"

text \<open>The ids of \<^verbatim>\<open>SYSTEM.ACTION.DEFAULT_ACTIONS\<close>, in the order of the table.\<close>

definition DEFAULT_ACTIONS :: "action list" where
  "DEFAULT_ACTIONS =
     map (\<lambda>i. \<lparr>action_id = i, action_name = i\<rparr>)
       [''cast'', ''move'', ''defend'', ''delay'', ''disengagementStrike'', ''recover'',
        ''refocus'', ''reload'', ''strike'']"

text \<open>
  \<^verbatim>\<open>
  _prepareActions() {
    this.actions = {};

    // Default actions that every character can do
    for ( let ad of SYSTEM.ACTION.DEFAULT_ACTIONS ) {
      const a = new CrucibleAction(ad);
      if ( (a.id === "cast") && !(this.grimoire.gestures.size && this.grimoire.runes.size) ) continue;
      if ( (a.id === "reload") && !this.equipment.weapons.reload ) continue;
      this.actions[a.id] = a.prepareForActor(this);
    }

    // Actions that are unlocked through an owned Talent
    for ( let t of this.itemTypes.talent ) {
      for ( let a of t.actions ) {
        this.actions[a.id] = a.prepareForActor(this);
      }
    }
  }
  \<close>
  The class \<^verbatim>\<open>CrucibleAction\<close> is defined in another module, so the binding
  \<^verbatim>\<open>a.prepareForActor(this)\<close> is the parameter \<open>prep\<close>.  \<open>reload\<close> is the truth value of
  \<^verbatim>\<open>this.equipment.weapons.reload\<close>.  The registry \<^verbatim>\<open>this.actions\<close> is a map from
  action ids, and \<open>register_action\<close> is the assignment
  \<^verbatim>\<open>this.actions[a.id] = a.prepareForActor(this)\<close>.
\<close>

definition register_action :: "(action \<Rightarrow> 'p) \<Rightarrow> action \<Rightarrow> (string \<rightharpoonup> 'p) \<Rightarrow> (string \<rightharpoonup> 'p)" where
  "register_action prep a actions = actions(action_id a \<mapsto> prep a)"

definition register_default ::
  "(action \<Rightarrow> 'p) \<Rightarrow> grimoire \<Rightarrow> bool \<Rightarrow> action \<Rightarrow> (string \<rightharpoonup> 'p) \<Rightarrow> (string \<rightharpoonup> 'p)" where
  "register_default prep g reload a actions =
     (if action_id a = ''cast'' \<and> \<not> (gestures g \<noteq> {} \<and> runes g \<noteq> {}) then actions
      else if action_id a = ''reload'' \<and> \<not> reload then actions
      else register_action prep a actions)"

definition register_talent :: "(action \<Rightarrow> 'p) \<Rightarrow> talent \<Rightarrow> (string \<rightharpoonup> 'p) \<Rightarrow> (string \<rightharpoonup> 'p)" where
  "register_talent prep t actions =
     fold (register_action prep) (talent_actions t) actions"

definition prepareActions ::
  "(action \<Rightarrow> 'p) \<Rightarrow> grimoire \<Rightarrow> bool \<Rightarrow> talent list \<Rightarrow> (string \<rightharpoonup> 'p)" where
  "prepareActions prep g reload talents =
     fold (register_talent prep) talents
       (fold (register_default prep g reload) DEFAULT_ACTIONS Map.empty)"


section \<open>Spells: cost\<close>

text \<open>
  The cost of an action: action points, focus points and, once blood magic has written
  it, health (\<open>None\<close> while the property is absent).  Gestures and inflections carry a
  cost; the model reads them after the configuration objects have been instantiated, so
  both numbers are present.
\<close>

record action_cost =
  cost_action :: int
  cost_focus :: int
  cost_health :: "int option"

record gesture =
  gesture_id :: string
  gesture_cost :: action_cost

record inflection =
  inflection_id :: string
  inflection_cost :: action_cost

text \<open>\<^verbatim>\<open>CrucibleSpell.COMPOSITION_STATES\<close> is \<^verbatim>\<open>{NONE: 0, COMPOSING: 1, COMPOSED: 2}\<close>.\<close>

datatype composition_state = NONE | COMPOSING | COMPOSED

record spell =
  spell_gesture :: gesture
  spell_inflection :: "inflection option"
  composition :: composition_state
  cost :: action_cost
  trueCost :: "action_cost option"

text \<open>
  \<^verbatim>\<open>
  static #prepareCost(spell) {
    const cost = {...spell.gesture.cost};
    if ( spell.inflection ) {
      cost.action += spell.inflection.cost.action;
      cost.focus += spell.inflection.cost.focus;
    }
    return cost;
  }
  \<close>
\<close>

definition prepareCost :: "spell \<Rightarrow> action_cost" where
  "prepareCost sp =
     (let c = gesture_cost (spell_gesture sp) in
      case spell_inflection sp of
        None \<Rightarrow> c
      | Some i \<Rightarrow>
          c\<lparr>cost_action := cost_action c + cost_action (inflection_cost i),
            cost_focus := cost_focus c + cost_focus (inflection_cost i)\<rparr>)"

text \<open>
  The flags of \<^verbatim>\<open>actor.system.status\<close> that \<^verbatim>\<open>#prepareGesture\<close> reads.  Of
  \<^verbatim>\<open>#prepareGesture\<close> the model keeps what it does to the cost: the gestures
  \<^verbatim>\<open>arrow\<close> and \<^verbatim>\<open>strike\<close> take one action point off for the signature talents
  \<^verbatim>\<open>
      case "arrow":
        if ( t.has("arcanearcher0000") && s.rangedAttack && !s.arcaneArcher ) {
          this.cost.action -= 1;
          ...
      case "strike":
        ...
        if ( t.has("spellblade000000") && s.meleeAttack && !s.spellblade ) {
          this.cost.action -= 1;
          ...
  \<close>
  and no other branch touches \<^verbatim>\<open>this.cost\<close>.
\<close>

record actor_status =
  rangedAttack :: bool
  arcaneArcher :: bool
  meleeAttack :: bool
  spellblade :: bool

definition prepareGesture :: "string set \<Rightarrow> actor_status \<Rightarrow> spell \<Rightarrow> spell" where
  "prepareGesture t s sp =
     (if gesture_id (spell_gesture sp) = ''arrow'' then
        (if ''arcanearcher0000'' \<in> t \<and> rangedAttack s \<and> \<not> arcaneArcher s
         then sp\<lparr>cost := (cost sp)\<lparr>cost_action := cost_action (cost sp) - 1\<rparr>\<rparr>
         else sp)
      else if gesture_id (spell_gesture sp) = ''strike'' then
        (if ''spellblade000000'' \<in> t \<and> meleeAttack s \<and> \<not> spellblade s
         then sp\<lparr>cost := (cost sp)\<lparr>cost_action := cost_action (cost sp) - 1\<rparr>\<rparr>
         else sp)
      else sp)"

text \<open>
  \<^verbatim>\<open>
  _prepareForActor() {
    super._prepareForActor();
    CrucibleSpell.#prepareGesture.call(this);

    // Blood Magic
    if ( this.actor.talentIds.has("bloodmagic000000") ) {
      this.cost.health = (this.cost.focus * 10);
      this.cost.focus = 0;
    }

    // Zero cost for un-composed spells
    this._trueCost = {...this.cost};
    if ( this.composition !== CrucibleSpell.COMPOSITION_STATES.COMPOSED ) {
      this.cost.action = this.cost.focus = 0;
    }
  }
  \<close>
  \<^verbatim>\<open>super._prepareForActor()\<close> belongs to \<^verbatim>\<open>CrucibleAction\<close>, defined in another
  module: the model starts from the spell as that call leaves it.
\<close>

definition prepareForActor :: "string set \<Rightarrow> actor_status \<Rightarrow> spell \<Rightarrow> spell" where
  "prepareForActor t s sp0 =
     (let sp = prepareGesture t s sp0;
          c = cost sp;
          c = (if ''bloodmagic000000'' \<in> t
               then c\<lparr>cost_health := Some (cost_focus c * 10), cost_focus := 0\<rparr>
               else c);
          tc = c;
          c = (if composition sp \<noteq> COMPOSED then c\<lparr>cost_action := 0, cost_focus := 0\<rparr> else c)
      in sp\<lparr>cost := c, trueCost := Some tc\<rparr>)"

text \<open>
  \<^verbatim>\<open>_prepareData\<close> sets \<^verbatim>\<open>this.cost = CrucibleSpell.#prepareCost(this)\<close>; \<open>prepareData\<close>
  is that assignment.
\<close>

definition prepareData :: "spell \<Rightarrow> spell" where
  "prepareData sp = sp\<lparr>cost := prepareCost sp\<rparr>"


section \<open>World items: standard ids\<close>

record world_item =
  wi_id :: string
  wi_name :: string

text \<open>\<^verbatim>\<open>s.slice(0, 16).padEnd(16, "0")\<close> on a string.\<close>

definition padEnd :: "string \<Rightarrow> nat \<Rightarrow> char \<Rightarrow> string" where
  "padEnd s n c = s @ replicate (n - length s) c"

text \<open>
  \<^verbatim>\<open>
  async function standardizeItemIds() {
    const creations = [];
    const deletions = [];
    for ( const item of game.items ) {
      const standardId = item.name.slugify({replacement: "", strict: true}).slice(0, 16).padEnd(16, "0");
      if ( item.id === standardId ) continue;
      if ( game.items.has(standardId) ) throw new Error(`Standardized system ID ${standardId} is already in use`);
      deletions.push(item.id);
      creations.push(Object.assign(item.toObject(), {_id: standardId}));
    }
    await Item.deleteDocuments(deletions);
    await Item.createDocuments(creations, {keepId: true});
  }
  \<close>
  \<^verbatim>\<open>String.prototype.slugify\<close> belongs to the host platform; the model takes
  \<^verbatim>\<open>name.slugify({replacement: "", strict: true})\<close> as the parameter \<open>slugify\<close>.
  \<open>items\<close> is the world collection \<^verbatim>\<open>game.items\<close>.  The result is the conflict error,
  thrown before anything is deleted or created, or the two lists handed to the host:
  the ids to delete and the item data to create.
\<close>

definition standardId :: "(string \<Rightarrow> string) \<Rightarrow> world_item \<Rightarrow> string" where
  "standardId slugify it = padEnd (take 16 (slugify (wi_name it))) 16 CHR ''0''"

fun standardize_loop ::
  "(string \<Rightarrow> string) \<Rightarrow> world_item list \<Rightarrow> world_item list \<Rightarrow> string list \<Rightarrow> world_item list
     \<Rightarrow> error + (string list \<times> world_item list)" where
  "standardize_loop slugify items [] deletions creations = Inr (deletions, creations)"
| "standardize_loop slugify items (it # rest) deletions creations =
     (let sid = standardId slugify it in
      if wi_id it = sid then standardize_loop slugify items rest deletions creations
      else if sid \<in> set (map wi_id items)
        then Inl (ConflictError (''Standardized system ID '' @ sid @ '' is already in use''))
      else standardize_loop slugify items rest
             (deletions @ [wi_id it]) (creations @ [it\<lparr>wi_id := sid\<rparr>]))"

definition standardizeItemIds ::
  "(string \<Rightarrow> string) \<Rightarrow> world_item list \<Rightarrow> error + (string list \<times> world_item list)" where
  "standardizeItemIds slugify items = standardize_loop slugify items items [] []"

text \<open>
  \<^verbatim>\<open>Item.deleteDocuments(deletions)\<close> removes the world items with the listed ids.
\<close>

definition deleteDocuments :: "string list \<Rightarrow> world_item list \<Rightarrow> world_item list" where
  "deleteDocuments deletions items = filter (\<lambda>it. wi_id it \<notin> set deletions) items"


section \<open>Canvas tokens: engagement\<close>

text \<open>
  Tokens are identified by their id.  Every token object carries the field
  \<^verbatim>\<open>engaged = new Set()\<close>; a JavaScript \<^verbatim>\<open>Set\<close> is kept as the list of its elements in
  insertion order, which is the order \<^verbatim>\<open>for ... of\<close> visits.  \<open>has_actor\<close> tells
  whether \<^verbatim>\<open>token.actor\<close> is present.
\<close>

type_synonym token = string

record canvas =
  engaged :: "token \<Rightarrow> token list"
  has_actor :: "token \<Rightarrow> bool"

definition set_add :: "'a \<Rightarrow> 'a list \<Rightarrow> 'a list" where
  "set_add x xs = (if x \<in> set xs then xs else xs @ [x])"

definition set_delete :: "'a \<Rightarrow> 'a list \<Rightarrow> 'a list" where
  "set_delete x xs = removeAll x xs"

text \<open>
  \<^verbatim>\<open>
  #computeEngagement() {
    if ( this.actor?.isIncapacitated || this.actor?.isBroken ) return new Set();
    const {engagementBounds, movePolygon} = canvas.grid.isHex
      ? this.#computeEngagementHexGrid()
      : this.#computeEngagementSquareGrid();
    const {enemy} = this.#getDispositions();
    const enemies = canvas.tokens.quadtree.getObjects(engagementBounds, {collisionTest: ...});
    ...
    return enemies;
  }
  #computeEngagementHexGrid() {
    throw new Error("Not yet implemented");
  }
  \<close>
  The geometry is the host's: the set that the quadtree search returns is the field
  \<open>found\<close> of the surroundings of the token, next to the two conditions tested before
  the search.
\<close>

record surroundings =
  unable :: bool
  isHex :: bool
  found :: "token list"

datatype canvas_error = NotYetImplemented | ActorIsNull

definition computeEngagement :: "surroundings \<Rightarrow> canvas_error + token list" where
  "computeEngagement env =
     (if unable env then Inr []
      else if isHex env then Inl NotYetImplemented
      else Inr (found env))"

text \<open>
  \<^verbatim>\<open>
  async _draw() {
    await super._draw();
    this.engaged = this.#computeEngagement();
  }
  \<close>
  A handler returns the canvas as it leaves it, and the error it threw, if any.
\<close>

definition draw :: "canvas \<Rightarrow> token \<Rightarrow> surroundings \<Rightarrow> canvas \<times> canvas_error option" where
  "draw cv this env =
     (case computeEngagement env of
        Inl e \<Rightarrow> (cv, Some e)
      | Inr enemies \<Rightarrow> (cv\<lparr>engaged := (engaged cv)(this := enemies)\<rparr>, None))"

text \<open>
  \<^verbatim>\<open>
  updateFlanking({commit, enemies}={}) {
    enemies ||= this.#computeEngagement();

    // Iterate over prior engaged
    for ( const token of this.engaged ) {
      if ( enemies.has(token) ) continue; // No change
      this.engaged.delete(token);
      token.engaged.delete(this);
      if ( commit && token.actor ) token.actor.updateFlanking(token.engaged);
    }

    // Add new engaged
    for ( const token of enemies ) {
      if ( this.engaged.has(token) ) continue; // No change
      this.engaged.add(token);
      token.engaged.add(this);
      if ( commit && token.actor ) token.actor.updateFlanking(token.engaged);
    }

    // Update our own flanking status
    if ( commit && this.actor ) this.actor.updateFlanking(this.engaged);
  }
  \<close>
  The actor-side \<^verbatim>\<open>updateFlanking\<close> receives the set and is guarded by the presence of
  the actor; it belongs to the actor document, and the model takes it to leave the
  engaged sets as they are.  \<open>disengage\<close> and \<open>engage\<close> are the two mirrored writes,
  \<open>drop_prior\<close> and \<open>add_new\<close> the two loops.  The first loop deletes from the set it
  visits only the element it is at, so it visits the elements the set had at the start.
\<close>

definition disengage :: "token \<Rightarrow> token \<Rightarrow> canvas \<Rightarrow> canvas" where
  "disengage this tok cv =
     (let cv = cv\<lparr>engaged := (engaged cv)(this := set_delete tok (engaged cv this))\<rparr>
      in cv\<lparr>engaged := (engaged cv)(tok := set_delete this (engaged cv tok))\<rparr>)"

definition engage :: "token \<Rightarrow> token \<Rightarrow> canvas \<Rightarrow> canvas" where
  "engage this tok cv =
     (let cv = cv\<lparr>engaged := (engaged cv)(this := set_add tok (engaged cv this))\<rparr>
      in cv\<lparr>engaged := (engaged cv)(tok := set_add this (engaged cv tok))\<rparr>)"

fun drop_prior :: "token \<Rightarrow> token list \<Rightarrow> token list \<Rightarrow> canvas \<Rightarrow> canvas" where
  "drop_prior this enemies [] cv = cv"
| "drop_prior this enemies (tok # rest) cv =
     (if tok \<in> set enemies then drop_prior this enemies rest cv
      else drop_prior this enemies rest (disengage this tok cv))"

fun add_new :: "token \<Rightarrow> token list \<Rightarrow> canvas \<Rightarrow> canvas" where
  "add_new this [] cv = cv"
| "add_new this (tok # rest) cv =
     (if tok \<in> set (engaged cv this) then add_new this rest cv
      else add_new this rest (engage this tok cv))"

definition updateFlanking ::
  "canvas \<Rightarrow> token \<Rightarrow> bool \<Rightarrow> token list option \<Rightarrow> surroundings \<Rightarrow> canvas \<times> canvas_error option" where
  "updateFlanking cv this commit enemies_arg env =
     (case (case enemies_arg of Some e \<Rightarrow> Inr e | None \<Rightarrow> computeEngagement env) of
        Inl e \<Rightarrow> (cv, Some e)
      | Inr enemies \<Rightarrow>
          (add_new this enemies (drop_prior this enemies (engaged cv this) cv), None))"

text \<open>
  \<^verbatim>\<open>
  _onCreate(data, options, userId) {
    super._onCreate(data, options, userId);
    ...
    const enemies = this.engaged;
    this.engaged = new Set();
    this.updateFlanking({enemies, commit});
  }
  _onUpdate(data, options, userId) {
    super._onUpdate(data, options, userId);
    ...
    this.updateFlanking({commit});
  }
  \<close>
\<close>

definition onCreate :: "canvas \<Rightarrow> token \<Rightarrow> bool \<Rightarrow> surroundings \<Rightarrow> canvas \<times> canvas_error option" where
  "onCreate cv this commit env =
     (let enemies = engaged cv this;
          cv = cv\<lparr>engaged := (engaged cv)(this := [])\<rparr>
      in updateFlanking cv this commit (Some enemies) env)"

definition onUpdate :: "canvas \<Rightarrow> token \<Rightarrow> bool \<Rightarrow> surroundings \<Rightarrow> canvas \<times> canvas_error option" where
  "onUpdate cv this commit env = updateFlanking cv this commit None env"

text \<open>
  \<^verbatim>\<open>
  _onDelete(options, userId) {
    super._onDelete(options, userId);
    ...
    for ( const token of this.engaged ) {
      token.engaged.delete(this);
      if ( commit ) token.actor.updateFlanking(token.engaged);
    }
    this.engaged.clear();
  }
  \<close>
  Here the call on \<^verbatim>\<open>token.actor\<close> is not guarded: with \<^verbatim>\<open>commit\<close> set and no actor on
  the token it throws a \<^verbatim>\<open>TypeError\<close>, after the deletion on that token and before the
  rest of the loop and the final \<^verbatim>\<open>clear()\<close>.
\<close>

fun onDelete_loop :: "token \<Rightarrow> bool \<Rightarrow> token list \<Rightarrow> canvas \<Rightarrow> canvas \<times> canvas_error option" where
  "onDelete_loop this commit [] cv = (cv, None)"
| "onDelete_loop this commit (tok # rest) cv =
     (let cv = cv\<lparr>engaged := (engaged cv)(tok := set_delete this (engaged cv tok))\<rparr>
      in if commit \<and> \<not> has_actor cv tok then (cv, Some ActorIsNull)
         else onDelete_loop this commit rest cv)"

definition onDelete :: "canvas \<Rightarrow> token \<Rightarrow> bool \<Rightarrow> canvas \<times> canvas_error option" where
  "onDelete cv this commit =
     (case onDelete_loop this commit (engaged cv this) cv of
        (cv, Some e) \<Rightarrow> (cv, Some e)
      | (cv, None) \<Rightarrow> (cv\<lparr>engaged := (engaged cv)(this := [])\<rparr>, None))"

text \<open>
  \<open>mirrored cv a b\<close>: \<open>b\<close> is in the engaged set of \<open>a\<close> exactly when \<open>a\<close> is in the
  engaged set of \<open>b\<close>.  \<open>no_tokens\<close> is a canvas on which no token is engaged.
\<close>

definition mirrored :: "canvas \<Rightarrow> token \<Rightarrow> token \<Rightarrow> bool" where
  "mirrored cv a b \<longleftrightarrow> (b \<in> set (engaged cv a) \<longleftrightarrow> a \<in> set (engaged cv b))"

definition no_tokens :: canvas where
  "no_tokens = \<lparr>engaged = (\<lambda>_. []), has_actor = (\<lambda>_. True)\<rparr>"


section \<open>Auxiliary predicates and example data\<close>

text \<open>
  \<open>maxima_ok\<close>: no resource pool has a negative maximum.  \<open>updates_clamped\<close>: every
  value of an update object lies between 0 and the maximum of the pool it is for.
\<close>

definition maxima_ok :: "resources \<Rightarrow> bool" where
  "maxima_ok r \<longleftrightarrow>
     0 \<le> res_max (health r) \<and> 0 \<le> res_max (wounds r) \<and> 0 \<le> res_max (morale r) \<and>
     0 \<le> res_max (madness r) \<and> 0 \<le> res_max (action r) \<and> 0 \<le> res_max (focus r) \<and>
     0 \<le> res_max (heroism r)"

definition updates_clamped :: "resources \<Rightarrow> (string \<rightharpoonup> int) \<Rightarrow> bool" where
  "updates_clamped r updates \<longleftrightarrow>
     (\<forall>n v. updates n = Some v \<longrightarrow>
        (\<exists>res. get_resource r n = Some res \<and> 0 \<le> v \<and> v \<le> res_max res))"

text \<open>
  \<open>rune_first ts\<close>: going through the talents in order, a talent that teaches a rune
  comes before any talent that teaches a gesture (or is that talent itself).
\<close>

fun rune_first :: "talent list \<Rightarrow> bool" where
  "rune_first [] = False"
| "rune_first (t # ts) =
     (js_truthy (talent_rune t) \<or> (\<not> js_truthy (talent_gesture t) \<and> rune_first ts))"

text \<open>The data used to run the functions on concrete inputs.\<close>

definition ex_resources :: resources where
  "ex_resources =
     \<lparr>health = \<lparr>res_value = 10, res_max = 20\<rparr>,
      wounds = \<lparr>res_value = 0, res_max = 40\<rparr>,
      morale = \<lparr>res_value = 10, res_max = 20\<rparr>,
      madness = \<lparr>res_value = 0, res_max = 40\<rparr>,
      action = \<lparr>res_value = 3, res_max = 3\<rparr>,
      focus = \<lparr>res_value = 2, res_max = 2\<rparr>,
      heroism = \<lparr>res_value = 0, res_max = 3\<rparr>\<rparr>"

definition ex_defenses :: "int \<Rightarrow> defenses" where
  "ex_defenses b =
     \<lparr>physical = 20,
      total = [''dodge'' \<mapsto> 4, ''parry'' \<mapsto> 2, ''block'' \<mapsto> b, ''willpower'' \<mapsto> 14]\<rparr>"

definition ex_effect :: "string \<Rightarrow> string \<Rightarrow> effect" where
  "ex_effect i from =
     \<lparr>effect_id = i, origin = Some from,
      duration = \<lparr>startRound = Some 5, rounds = Some 1\<rparr>\<rparr>"

definition ex_talents :: "talent list" where
  "ex_talents =
     [\<lparr>talent_id = ''t1'', talent_rune = Some ''flame'', talent_gesture = None,
        talent_inflection = None,
        talent_actions = [\<lparr>action_id = ''a1'', action_name = ''A1''\<rparr>]\<rparr>,
      \<lparr>talent_id = ''t2'', talent_rune = None, talent_gesture = Some ''arrow'',
        talent_inflection = None,
        talent_actions = [\<lparr>action_id = ''a2'', action_name = ''A2''\<rparr>]\<rparr>,
      \<lparr>talent_id = ''t3'', talent_rune = None, talent_gesture = None,
        talent_inflection = Some ''push'',
        talent_actions = [\<lparr>action_id = ''a3'', action_name = ''A3''\<rparr>]\<rparr>]"

text \<open>
  The same three kinds of talent with the gesture first, and a talent whose rune field
  is the empty string.
\<close>

definition ex_talents_gesture_first :: "talent list" where
  "ex_talents_gesture_first =
     [\<lparr>talent_id = ''t2'', talent_rune = None, talent_gesture = Some ''arrow'',
        talent_inflection = None,
        talent_actions = [\<lparr>action_id = ''a2'', action_name = ''A2''\<rparr>]\<rparr>,
      \<lparr>talent_id = ''t1'', talent_rune = Some ''flame'', talent_gesture = None,
        talent_inflection = None,
        talent_actions = [\<lparr>action_id = ''a1'', action_name = ''A1''\<rparr>]\<rparr>,
      \<lparr>talent_id = ''t4'', talent_rune = Some [], talent_gesture = None,
        talent_inflection = None, talent_actions = []\<rparr>]"

definition ex_points :: talent_points where
  "ex_points = \<lparr>tp_total = 2, tp_spent = 0, tp_available = 0\<rparr>"

text \<open>
  The gesture \<^verbatim>\<open>ray\<close> (2 action, 1 focus) with the inflection \<^verbatim>\<open>extend\<close> (1 action,
  1 focus), as the spellcraft configuration has them, in a spell being composed.
\<close>

definition ex_spell :: spell where
  "ex_spell =
     \<lparr>spell_gesture =
        \<lparr>gesture_id = ''ray'',
         gesture_cost = \<lparr>cost_action = 2, cost_focus = 1, cost_health = None\<rparr>\<rparr>,
      spell_inflection =
        Some \<lparr>inflection_id = ''extend'',
              inflection_cost = \<lparr>cost_action = 1, cost_focus = 1, cost_health = None\<rparr>\<rparr>,
      composition = COMPOSING,
      cost = \<lparr>cost_action = 0, cost_focus = 0, cost_health = None\<rparr>,
      trueCost = None\<rparr>"

definition ex_status :: actor_status where
  "ex_status =
     \<lparr>rangedAttack = False, arcaneArcher = False, meleeAttack = False, spellblade = False\<rparr>"

text \<open>
  Two world items with the same name and ids that are not standard.  On the name
  \<^verbatim>\<open>sword\<close>, lower-case letters only, strict slugification changes nothing.
\<close>

definition ex_items :: "world_item list" where
  "ex_items =
     [\<lparr>wi_id = ''aaaaaaaaaaaaaaaa'', wi_name = ''sword''\<rparr>,
      \<lparr>wi_id = ''bbbbbbbbbbbbbbbb'', wi_name = ''sword''\<rparr>]"

definition ex_canvas :: canvas where
  "ex_canvas =
     \<lparr>engaged = (\<lambda>_. [])(''A'' := [''B''], ''B'' := [''A'']), has_actor = (\<lambda>_. True)\<rparr>"

definition ex_surroundings :: surroundings where
  "ex_surroundings = \<lparr>unable = False, isHex = False, found = [''B'']\<rparr>"


section \<open>Properties\<close>

subsection \<open>Resource pools\<close>

lemma clamped_range: "0 \<le> hi \<Longrightarrow> 0 \<le> clamped n 0 hi \<and> clamped n 0 hi \<le> hi"
  by (simp add: clamped_def)

lemma maxima_ok_get: "maxima_ok r \<Longrightarrow> get_resource r n = Some res \<Longrightarrow> 0 \<le> res_max res"
  by (auto simp: maxima_ok_def get_resource_def split: if_splits)

lemma get_wounds: "get_resource r ''wounds'' = Some (wounds r)"
  by (simp add: get_resource_def)

lemma get_madness: "get_resource r ''madness'' = Some (madness r)"
  by (simp add: get_resource_def)

lemma updates_clamped_upd:
  "updates_clamped r updates \<Longrightarrow> get_resource r n = Some res \<Longrightarrow> 0 \<le> res_max res \<Longrightarrow>
   updates_clamped r (updates(n \<mapsto> clamped x 0 (res_max res)))"
  unfolding updates_clamped_def using clamped_range by auto

text \<open>
  The loop keeps every value of the update object within its pool's bounds, and leaves
  an entry for every resource named in the changes.
\<close>

lemma alterResources_updates_clamped:
  "maxima_ok r \<Longrightarrow> updates_clamped r updates \<Longrightarrow>
   alterResources_updates r changes updates = Inr updates' \<Longrightarrow>
   updates_clamped r updates' \<and> (\<forall>n \<in> fst ` set changes. n \<in> dom updates') \<and>
   dom updates \<subseteq> dom updates'"
proof (induction changes arbitrary: updates)
  case Nil
  then show ?case by simp
next
  case (Cons c changes)
  obtain n delta where c: "c = (n, delta)" by (cases c)
  from Cons.prems(3) c obtain res where res: "get_resource r n = Some res"
    by (auto split: option.splits)
  define u1 where "u1 = (if n = ''health'' \<and> min (res_value res + delta) 0 \<noteq> 0
                         then updates(''wounds'' \<mapsto>
                                clamped (res_value (wounds r) - min (res_value res + delta) 0) 0
                                  (res_max (wounds r)))
                         else updates)"
  define u2 where "u2 = (if n = ''morale'' \<and> min (res_value res + delta) 0 \<noteq> 0
                         then u1(''madness'' \<mapsto>
                                clamped (res_value (madness r) - min (res_value res + delta) 0) 0
                                  (res_max (madness r)))
                         else u1)"
  define u3 where "u3 = u2(n \<mapsto> clamped (res_value res + delta) 0 (res_max res))"
  have rec: "alterResources_updates r changes u3 = Inr updates'"
    using Cons.prems(3) c res by (auto simp: Let_def u1_def u2_def u3_def split: if_splits)
  have m: "\<And>k x. get_resource r k = Some x \<Longrightarrow> 0 \<le> res_max x"
    using Cons.prems(1) maxima_ok_get by blast
  have c1: "updates_clamped r u1"
    unfolding u1_def
    using Cons.prems(2) updates_clamped_upd[OF _ get_wounds m[OF get_wounds]] by simp
  have c2: "updates_clamped r u2"
    unfolding u2_def using c1 updates_clamped_upd[OF _ get_madness m[OF get_madness]] by simp
  have c3: "updates_clamped r u3"
    unfolding u3_def using c2 updates_clamped_upd[OF _ res m[OF res]] by simp
  have d: "dom updates \<subseteq> dom u3" "n \<in> dom u3"
    by (auto simp: u1_def u2_def u3_def)
  from Cons.IH[OF Cons.prems(1) c3 rec] d c show ?case by (simp add: subset_iff)
qed

lemma get_resource_apply_updates:
  "get_resource (apply_updates u r) n = map_option (set_value u n) (get_resource r n)"
  by (simp add: get_resource_def apply_updates_def)

text \<open>
  Clamping, the part of C1 that the code does keep: when no pool has a negative maximum,
  every pool is afterwards either as it was or has a value within \<open>[0, max]\<close>, and every
  pool named in the changes has a value within \<open>[0, max]\<close>.
\<close>

lemma alterResources_clamped:
  assumes ok: "maxima_ok r" and run: "alterResources r changes = Inr r'"
    and res: "get_resource r n = Some res"
  shows "\<exists>res'. get_resource r' n = Some res' \<and> res_max res' = res_max res \<and>
           (res' = res \<or> (0 \<le> res_value res' \<and> res_value res' \<le> res_max res')) \<and>
           (n \<in> fst ` set changes \<longrightarrow> 0 \<le> res_value res' \<and> res_value res' \<le> res_max res')"
proof -
  from run obtain u where u: "alterResources_updates r changes Map.empty = Inr u"
    and r': "r' = apply_updates u r"
    by (auto simp: alterResources_def split: sum.splits)
  have "updates_clamped r Map.empty" by (simp add: updates_clamped_def)
  from alterResources_updates_clamped[OF ok this u]
  have cl: "updates_clamped r u" and dm: "\<forall>k \<in> fst ` set changes. k \<in> dom u" by auto
  show ?thesis
  proof (cases "u n")
    case None
    with dm have "n \<notin> fst ` set changes" by auto
    with None res show ?thesis
      by (simp add: r' get_resource_apply_updates set_value_def)
  next
    case (Some v)
    from cl Some obtain res0 where "get_resource r n = Some res0" "0 \<le> v" "v \<le> res_max res0"
      unfolding updates_clamped_def by blast
    with res have "0 \<le> v \<and> v \<le> res_max res"
      by simp
    with Some res show ?thesis
      by (simp add: r' get_resource_apply_updates set_value_def)
  qed
qed

text \<open>
  What the code does with a health change that goes below 0: health is clamped and the
  overflow is moved onto wounds once.
\<close>

lemma alterResources_health_overflow:
  assumes "res_value (health r) + delta < 0"
  shows "alterResources r [(''health'', delta)] =
     Inr (r\<lparr>health := (health r)\<lparr>res_value :=
                        clamped (res_value (health r) + delta) 0 (res_max (health r))\<rparr>,
            wounds := (wounds r)\<lparr>res_value :=
                        clamped (res_value (wounds r) - (res_value (health r) + delta)) 0
                          (res_max (wounds r))\<rparr>\<rparr>)"
  using assms
  by (simp add: alterResources_def Let_def get_resource_def apply_updates_def set_value_def
                min_def)

text \<open>
  C1.  The specification has the overflow of health below 0 land on wounds at double
  its magnitude, and so does the comment
  \<^verbatim>\<open>// Overflow health onto wounds (double damage)\<close> in the source.  The code subtracts
  the overflow once.  With health 10 of 20 and wounds
  0 of 40, a delta of \<open>-15\<close> overflows by 5: health ends at 0 and wounds at 5, where the
  doubled overflow would be 10, within the maximum of 40.  The same holds for morale and
  madness.  With a delta of \<open>-9999\<close> health ends at 0 and wounds at their maximum.
\<close>

theorem alterResources_overflow_not_doubled:
  "alterResources ex_resources [(''health'', -15)] =
     Inr (ex_resources\<lparr>health := \<lparr>res_value = 0, res_max = 20\<rparr>,
                       wounds := \<lparr>res_value = 5, res_max = 40\<rparr>\<rparr>) \<and>
   alterResources ex_resources [(''morale'', -15)] =
     Inr (ex_resources\<lparr>morale := \<lparr>res_value = 0, res_max = 20\<rparr>,
                       madness := \<lparr>res_value = 5, res_max = 40\<rparr>\<rparr>) \<and>
   alterResources ex_resources [(''health'', -9999)] =
     Inr (ex_resources\<lparr>health := \<lparr>res_value = 0, res_max = 20\<rparr>,
                       wounds := \<lparr>res_value = 40, res_max = 40\<rparr>\<rparr>)"
  by (simp add: ex_resources_def alterResources_def Let_def get_resource_def clamped_def
                apply_updates_def set_value_def)

subsection \<open>Testing a defense\<close>

text \<open>
  C2.  Let the actor have totals for dodge, parry and block, and let \<open>r\<close> be the drawn
  number times the physical total.  On the physical defense \<^verbatim>\<open>testDefense\<close> returns
  \<open>HIT\<close> exactly when the roll total exceeds the physical total.  Otherwise it returns
  \<open>DODGE\<close> when \<open>r \<le> dodge\<close>; \<open>PARRY\<close> when \<open>dodge < r \<le> dodge + parry\<close>; \<open>BLOCK\<close> when
  \<open>r\<close> is above both of these bounds and \<open>r \<le> dodge + block\<close>; and \<open>DEFLECT\<close> when \<open>r\<close>
  is above all three bounds.  A draw \<open>0 \<le> u < 1\<close> on a positive physical total gives
  \<open>0 \<le> r < physical\<close>.  On any other named defense of the actor it returns \<open>EFFECTIVE\<close>
  exactly when the roll total exceeds that defense's total and \<open>RESIST\<close> exactly when
  it does not.
\<close>

theorem testDefense_bands:
  "(total d ''dodge'' = Some dodge \<and> total d ''parry'' = Some parry \<and>
    total d ''block'' = Some block \<and> r = u * real_of_int (physical d) \<longrightarrow>
      (testDefense d ''physical'' rollTotal dc u = Inr HIT \<longleftrightarrow> rollTotal > physical d) \<and>
      (\<not> rollTotal > physical d \<longrightarrow>
         (r \<le> real_of_int dodge \<longrightarrow> testDefense d ''physical'' rollTotal dc u = Inr DODGE) \<and>
         (real_of_int dodge < r \<and> r \<le> real_of_int (dodge + parry) \<longrightarrow>
            testDefense d ''physical'' rollTotal dc u = Inr PARRY) \<and>
         (real_of_int dodge < r \<and> real_of_int (dodge + parry) < r \<and>
          r \<le> real_of_int (dodge + block) \<longrightarrow>
            testDefense d ''physical'' rollTotal dc u = Inr BLOCK) \<and>
         (real_of_int dodge < r \<and> real_of_int (dodge + parry) < r \<and>
          real_of_int (dodge + block) < r \<longrightarrow>
            testDefense d ''physical'' rollTotal dc u = Inr DEFLECT)) \<and>
      (0 \<le> u \<and> u < 1 \<and> 0 < physical d \<longrightarrow> 0 \<le> r \<and> r < real_of_int (physical d))) \<and>
   (defenseType \<noteq> ''physical'' \<and> defenseType \<noteq> [] \<and> total d defenseType = Some t \<longrightarrow>
      (testDefense d defenseType rollTotal dc u = Inr EFFECTIVE \<longleftrightarrow> rollTotal > t) \<and>
      (testDefense d defenseType rollTotal dc u = Inr RESIST \<longleftrightarrow> \<not> rollTotal > t))"
proof -
  have phys:
    "(testDefense d ''physical'' rollTotal dc u = Inr HIT \<longleftrightarrow> rollTotal > physical d) \<and>
     (\<not> rollTotal > physical d \<longrightarrow>
         (r \<le> real_of_int dodge \<longrightarrow> testDefense d ''physical'' rollTotal dc u = Inr DODGE) \<and>
         (real_of_int dodge < r \<and> r \<le> real_of_int (dodge + parry) \<longrightarrow>
            testDefense d ''physical'' rollTotal dc u = Inr PARRY) \<and>
         (real_of_int dodge < r \<and> real_of_int (dodge + parry) < r \<and>
          r \<le> real_of_int (dodge + block) \<longrightarrow>
            testDefense d ''physical'' rollTotal dc u = Inr BLOCK) \<and>
         (real_of_int dodge < r \<and> real_of_int (dodge + parry) < r \<and>
          real_of_int (dodge + block) < r \<longrightarrow>
            testDefense d ''physical'' rollTotal dc u = Inr DEFLECT))"
    if "total d ''dodge'' = Some dodge" "total d ''parry'' = Some parry"
       "total d ''block'' = Some block" "r = u * real_of_int (physical d)"
    using that by (simp add: testDefense_def Let_def)
  have draw: "0 \<le> r \<and> r < real_of_int (physical d)"
    if "r = u * real_of_int (physical d)" "0 \<le> u" "u < 1" "0 < physical d"
    using that by simp
  have other:
    "(testDefense d defenseType rollTotal dc u = Inr EFFECTIVE \<longleftrightarrow> rollTotal > t) \<and>
     (testDefense d defenseType rollTotal dc u = Inr RESIST \<longleftrightarrow> \<not> rollTotal > t)"
    if "defenseType \<noteq> ''physical''" "defenseType \<noteq> []" "total d defenseType = Some t"
    using that by (simp add: testDefense_def)
  show ?thesis using phys draw other by blast
qed

theorem testDefense_bands_witness:
  "testDefense (ex_defenses 0) ''physical'' 12 None (3 / 20) = Inr DODGE \<and>
   testDefense (ex_defenses 0) ''physical'' 12 None (5 / 20) = Inr PARRY \<and>
   testDefense (ex_defenses 0) ''physical'' 12 None (10 / 20) = Inr DEFLECT \<and>
   testDefense (ex_defenses 5) ''physical'' 12 None (7 / 20) = Inr BLOCK \<and>
   testDefense (ex_defenses 0) ''physical'' 21 None (3 / 20) = Inr HIT \<and>
   testDefense (ex_defenses 0) ''willpower'' 15 None 0 = Inr EFFECTIVE \<and>
   testDefense (ex_defenses 0) ''willpower'' 14 None 0 = Inr RESIST"
  using testDefense_bands
          [where d = "ex_defenses 0" and dodge = 4 and parry = 2 and block = 0 and u = "3 / 20"
             and r = 3 and rollTotal = 12 and dc = None and defenseType = "''willpower''"
             and t = 14]
        testDefense_bands
          [where d = "ex_defenses 0" and dodge = 4 and parry = 2 and block = 0 and u = "5 / 20"
             and r = 5 and rollTotal = 12 and dc = None and defenseType = "''willpower''"
             and t = 14]
        testDefense_bands
          [where d = "ex_defenses 0" and dodge = 4 and parry = 2 and block = 0 and u = "10 / 20"
             and r = 10 and rollTotal = 12 and dc = None and defenseType = "''willpower''"
             and t = 14]
        testDefense_bands
          [where d = "ex_defenses 5" and dodge = 4 and parry = 2 and block = 5 and u = "7 / 20"
             and r = 7 and rollTotal = 12 and dc = None and defenseType = "''willpower''"
             and t = 14]
        testDefense_bands
          [where d = "ex_defenses 0" and dodge = 4 and parry = 2 and block = 0 and u = "3 / 20"
             and r = 3 and rollTotal = 21 and dc = None and defenseType = "''willpower''"
             and t = 14]
        testDefense_bands
          [where d = "ex_defenses 0" and dodge = 4 and parry = 2 and block = 0 and u = 0
             and r = 0 and rollTotal = 15 and dc = None and defenseType = "''willpower''"
             and t = 14]
        testDefense_bands
          [where d = "ex_defenses 0" and dodge = 4 and parry = 2 and block = 0 and u = 0
             and r = 0 and rollTotal = 14 and dc = None and defenseType = "''willpower''"
             and t = 14]
  by (simp add: ex_defenses_def)

subsection \<open>Equipment slots of a weapon\<close>

text \<open>
  The slot numbers allowed to a weapon of each category of the table that has no
  property.
\<close>

lemma CATEGORIES_slots:
  "map (\<lambda>(n, c). (n, map slot_value
                          (getAllowedEquipmentSlots \<lparr>category = c, properties = {}\<rparr>)))
       CATEGORIES =
     [(''light1'', [0, 1, 2]), (''simple1'', [0, 1, 2]), (''balanced1'', [0, 1, 2]),
      (''heavy1'', [1]), (''massive1'', [1]), (''simple2'', [3]), (''balanced2'', [3]),
      (''heavy2'', [3]), (''massive2'', [3]), (''projectile2'', [3]),
      (''mechanical1'', [0, 1, 2]), (''mechanical2'', [3]), (''shield'', [0, 1, 2])]"
  by (simp add: CATEGORIES_def mk_category_def getAllowedEquipmentSlots_def)

text \<open>
  C3. A weapon whose category needs two hands is allowed in the slot list \<open>[TWOHAND]\<close>
  and nothing else.  For every other category the list is: \<open>EITHER\<close> first when the
  category is off-hand eligible, then \<open>MAINHAND\<close>, then \<open>OFFHAND\<close> when the category
  is off-hand eligible, then \<open>TWOHAND\<close> when the weapon has the versatile property.  So
  \<open>MAINHAND\<close> is always present for a one-handed category, and a one-handed,
  off-hand eligible, versatile weapon gets \<open>[EITHER, MAINHAND, OFFHAND, TWOHAND]\<close>.
\<close>

theorem getAllowedEquipmentSlots_spec:
  "(hands (category w) = 2 \<longrightarrow> getAllowedEquipmentSlots w = [TWOHAND]) \<and>
   (hands (category w) \<noteq> 2 \<longrightarrow>
      MAINHAND \<in> set (getAllowedEquipmentSlots w) \<and>
      getAllowedEquipmentSlots w =
        (if off (category w) then [EITHER] else []) @ [MAINHAND] @
        (if off (category w) then [OFFHAND] else []) @
        (if ''versatile'' \<in> properties w then [TWOHAND] else [])) \<and>
   (hands (category w) \<noteq> 2 \<and> off (category w) \<and> ''versatile'' \<in> properties w \<longrightarrow>
      getAllowedEquipmentSlots w = [EITHER, MAINHAND, OFFHAND, TWOHAND])"
  by (simp add: getAllowedEquipmentSlots_def Let_def)

theorem getAllowedEquipmentSlots_spec_witness:
  "getAllowedEquipmentSlots \<lparr>category = mk_category 2 True False False, properties = {''versatile''}\<rparr>
     = [TWOHAND] \<and>
   getAllowedEquipmentSlots \<lparr>category = mk_category 1 True True False, properties = {''versatile''}\<rparr>
     = [EITHER, MAINHAND, OFFHAND, TWOHAND] \<and>
   getAllowedEquipmentSlots \<lparr>category = mk_category 1 True False False, properties = {''reach''}\<rparr>
     = [MAINHAND]"
  using getAllowedEquipmentSlots_spec
          [of "\<lparr>category = mk_category 2 True False False, properties = {''versatile''}\<rparr>"]
        getAllowedEquipmentSlots_spec
          [of "\<lparr>category = mk_category 1 True True False, properties = {''versatile''}\<rparr>"]
        getAllowedEquipmentSlots_spec
          [of "\<lparr>category = mk_category 1 True False False, properties = {''reach''}\<rparr>"]
  by (simp add: mk_category_def)

subsection \<open>Ability point-buy\<close>

text \<open>
  C4.  For an actor at level 0 and an ability the actor has: with a positive delta
  \<^verbatim>\<open>canPurchaseAbility\<close> returns false when the base value of the ability is 3 or the
  point pool is used up (\<^verbatim>\<open>points.pool\<close> is 0), and true otherwise; with a negative
  delta it returns false when the base value is 0, and true otherwise.
\<close>

theorem canPurchaseAbility_level0:
  assumes "abilities abil = Some a"
  shows "(delta > 0 \<longrightarrow>
            canPurchaseAbility 0 abilities points abil delta
              = Some (\<not> (base a = 3 \<or> pool points = 0))) \<and>
         (delta < 0 \<longrightarrow>
            canPurchaseAbility 0 abilities points abil delta = Some (base a \<noteq> 0))"
  using assms by (auto simp: canPurchaseAbility_def Let_def)

theorem canPurchaseAbility_level0_witness:
  "canPurchaseAbility 0 [''strength'' \<mapsto> \<lparr>base = 3, increases = 0, ability_value = 3\<rparr>]
       \<lparr>pool = 4, available = 0\<rparr> ''strength'' 1 = Some False \<and>
   canPurchaseAbility 0 [''strength'' \<mapsto> \<lparr>base = 2, increases = 0, ability_value = 2\<rparr>]
       \<lparr>pool = 0, available = 0\<rparr> ''strength'' 1 = Some False \<and>
   canPurchaseAbility 0 [''strength'' \<mapsto> \<lparr>base = 2, increases = 0, ability_value = 2\<rparr>]
       \<lparr>pool = 4, available = 0\<rparr> ''strength'' 1 = Some True \<and>
   canPurchaseAbility 0 [''strength'' \<mapsto> \<lparr>base = 0, increases = 0, ability_value = 0\<rparr>]
       \<lparr>pool = 4, available = 0\<rparr> ''strength'' (-1) = Some False \<and>
   canPurchaseAbility 0 [''strength'' \<mapsto> \<lparr>base = 2, increases = 0, ability_value = 2\<rparr>]
       \<lparr>pool = 4, available = 0\<rparr> ''strength'' (-1) = Some True"
  using canPurchaseAbility_level0
          [of "[''strength'' \<mapsto> \<lparr>base = 3, increases = 0, ability_value = 3\<rparr>]" "''strength''"
              "\<lparr>base = 3, increases = 0, ability_value = 3\<rparr>" 1 "\<lparr>pool = 4, available = 0\<rparr>"]
        canPurchaseAbility_level0
          [of "[''strength'' \<mapsto> \<lparr>base = 2, increases = 0, ability_value = 2\<rparr>]" "''strength''"
              "\<lparr>base = 2, increases = 0, ability_value = 2\<rparr>" 1 "\<lparr>pool = 0, available = 0\<rparr>"]
        canPurchaseAbility_level0
          [of "[''strength'' \<mapsto> \<lparr>base = 2, increases = 0, ability_value = 2\<rparr>]" "''strength''"
              "\<lparr>base = 2, increases = 0, ability_value = 2\<rparr>" 1 "\<lparr>pool = 4, available = 0\<rparr>"]
        canPurchaseAbility_level0
          [of "[''strength'' \<mapsto> \<lparr>base = 0, increases = 0, ability_value = 0\<rparr>]" "''strength''"
              "\<lparr>base = 0, increases = 0, ability_value = 0\<rparr>" "-1" "\<lparr>pool = 4, available = 0\<rparr>"]
        canPurchaseAbility_level0
          [of "[''strength'' \<mapsto> \<lparr>base = 2, increases = 0, ability_value = 2\<rparr>]" "''strength''"
              "\<lparr>base = 2, increases = 0, ability_value = 2\<rparr>" "-1" "\<lparr>pool = 4, available = 0\<rparr>"]
  by simp

subsection \<open>Expiry of active effects\<close>

text \<open>\<^verbatim>\<open>expireEffects\<close> hands over for deletion the ids of the effects judged expired.\<close>

lemma expireEffects_deletes:
  "fst (expireEffects uuid cr effs start) =
     map effect_id (filter (\<lambda>e. isEffectExpired uuid cr e start) effs)"
  by (simp add: expireEffects_def Let_def)

text \<open>
  C5.  For an effect with a duration in rounds, write \<open>remaining\<close> for
  \<open>(startRound + rounds) - round\<close>.  An effect whose origin is the actor itself is judged
  expired at the start of the actor's turn exactly when \<open>remaining \<le> 0\<close>.  An effect of
  another origin is judged expired at the start of the turn exactly when
  \<open>remaining < 0\<close> and at the end of the turn exactly when \<open>remaining \<le> 0\<close>.  So, over
  the evaluations from round \<open>n\<close> on, an effect of one round created on round \<open>n\<close> is
  first judged expired at the start of the turn on round \<open>n + 1\<close> when it is the actor's
  own, and at the end of the turn on round \<open>n + 1\<close>, the next evaluation, when it is
  another actor's.
\<close>

theorem isEffectExpired_asymmetric:
  assumes "rounds (duration eff) = Some rnds"
  shows "(origin eff = Some uuid \<longrightarrow>
            (isEffectExpired uuid cr eff True
               \<longleftrightarrow> (js_number (startRound (duration eff)) + rnds) - cr \<le> 0)) \<and>
         (origin eff \<noteq> Some uuid \<longrightarrow>
            (isEffectExpired uuid cr eff True
               \<longleftrightarrow> (js_number (startRound (duration eff)) + rnds) - cr < 0) \<and>
            (isEffectExpired uuid cr eff False
               \<longleftrightarrow> (js_number (startRound (duration eff)) + rnds) - cr \<le> 0)) \<and>
         (rnds = 1 \<and> startRound (duration eff) = Some n \<and> 2 \<le> k \<longrightarrow>
            (origin eff = Some uuid \<longrightarrow>
               first_expiry uuid eff (turn_events n k) = Some (n + 1, True)) \<and>
            (origin eff \<noteq> Some uuid \<longrightarrow>
               first_expiry uuid eff (turn_events n k) = Some (n + 1, False)))"
proof -
  have bounds:
    "(origin eff = Some uuid \<longrightarrow>
        (isEffectExpired uuid cr eff True
           \<longleftrightarrow> (js_number (startRound (duration eff)) + rnds) - cr \<le> 0)) \<and>
     (origin eff \<noteq> Some uuid \<longrightarrow>
        (isEffectExpired uuid cr eff True
           \<longleftrightarrow> (js_number (startRound (duration eff)) + rnds) - cr < 0) \<and>
        (isEffectExpired uuid cr eff False
           \<longleftrightarrow> (js_number (startRound (duration eff)) + rnds) - cr \<le> 0))"
    using assms by (simp add: isEffectExpired_def Let_def)
  have timeline:
    "(origin eff = Some uuid \<longrightarrow>
        first_expiry uuid eff (turn_events n k) = Some (n + 1, True)) \<and>
     (origin eff \<noteq> Some uuid \<longrightarrow>
        first_expiry uuid eff (turn_events n k) = Some (n + 1, False))"
    if h: "rnds = 1" "startRound (duration eff) = Some n" "2 \<le> k"
  proof -
    from h(3) obtain k' where k: "k = Suc (Suc k')"
      by (metis Suc_le_D numeral_2_eq_2 Suc_le_mono)
    show ?thesis
      using assms h(1,2)
      by (simp add: k first_expiry_def isEffectExpired_def Let_def)
  qed
  show ?thesis using bounds timeline by blast
qed

theorem isEffectExpired_asymmetric_witness:
  "first_expiry ''Actor.a'' (ex_effect ''e1'' ''Actor.a'') (turn_events 5 3) = Some (6, True) \<and>
   first_expiry ''Actor.a'' (ex_effect ''e2'' ''Actor.b'') (turn_events 5 3) = Some (6, False) \<and>
   isEffectExpired ''Actor.a'' 6 (ex_effect ''e1'' ''Actor.a'') True \<and>
   \<not> isEffectExpired ''Actor.a'' 6 (ex_effect ''e2'' ''Actor.b'') True \<and>
   isEffectExpired ''Actor.a'' 6 (ex_effect ''e2'' ''Actor.b'') False \<and>
   expireEffects ''Actor.a'' 6 [ex_effect ''e1'' ''Actor.a'', ex_effect ''e2'' ''Actor.b''] True
     = ([''e1''], [ex_effect ''e2'' ''Actor.b'']) \<and>
   expireEffects ''Actor.a'' 6 [ex_effect ''e2'' ''Actor.b''] False = ([''e2''], [])"
  using isEffectExpired_asymmetric
          [where eff = "ex_effect ''e1'' ''Actor.a''" and rnds = 1 and uuid = "''Actor.a''"
             and cr = 6 and n = 5 and k = 3]
        isEffectExpired_asymmetric
          [where eff = "ex_effect ''e2'' ''Actor.b''" and rnds = 1 and uuid = "''Actor.a''"
             and cr = 6 and n = 5 and k = 3]
  by (simp add: ex_effect_def expireEffects_def Let_def)

subsection \<open>Token engagement\<close>

lemma set_set_add: "set (set_add x xs) = insert x (set xs)"
  by (auto simp: set_add_def)

lemma set_set_delete: "set (set_delete x xs) = set xs - {x}"
  by (simp add: set_delete_def)

lemma engaged_disengage:
  "set (engaged (disengage this tok cv) y) =
     set (engaged cv y) - (if y = this then {tok} else {}) - (if y = tok then {this} else {})"
  by (auto simp: disengage_def Let_def set_set_delete)

lemma engaged_engage:
  "set (engaged (engage this tok cv) y) =
     set (engaged cv y) \<union> (if y = this then {tok} else {}) \<union> (if y = tok then {this} else {})"
  by (auto simp: engage_def Let_def set_set_add)

text \<open>What the two loops of \<^verbatim>\<open>updateFlanking\<close> leave in the engaged set of any token.\<close>

lemma engaged_drop_prior:
  "set (engaged (drop_prior this e ts cv) y) =
     set (engaged cv y) - (if y = this then set ts - set e else {})
                        - (if y \<in> set ts - set e then {this} else {})"
proof (induction ts arbitrary: cv)
  case Nil
  then show ?case by simp
next
  case (Cons x ts)
  show ?case
  proof (cases "x \<in> set e")
    case True
    then show ?thesis using Cons.IH[of cv] by auto
  next
    case False
    then show ?thesis using Cons.IH[of "disengage this x cv"]
      by (auto simp: engaged_disengage split: if_splits)
  qed
qed

lemma engaged_add_new:
  "set (engaged (add_new this ts cv) y) =
     set (engaged cv y) \<union> (if y = this then set ts else {})
                        \<union> (if y \<in> set ts \<and> y \<notin> set (engaged cv this) then {this} else {})"
proof (induction ts arbitrary: cv)
  case Nil
  then show ?case by simp
next
  case (Cons x ts)
  show ?case
  proof (cases "x \<in> set (engaged cv this)")
    case True
    then show ?thesis using Cons.IH[of cv] by auto
  next
    case False
    then show ?thesis using Cons.IH[of "engage this x cv"]
      by (auto simp: engaged_engage split: if_splits)
  qed
qed

lemma engaged_updateFlanking:
  "set (engaged (fst (updateFlanking cv this commit (Some e) env)) y) =
     (if y = this then set e
      else if y \<in> set e \<and> y \<notin> set (engaged cv this) then insert this (set (engaged cv y))
      else if y \<in> set (engaged cv this) \<and> y \<notin> set e then set (engaged cv y) - {this}
      else set (engaged cv y))"
  by (auto simp: updateFlanking_def engaged_add_new engaged_drop_prior)

lemma disengage_mirrored: "mirrored cv a b \<Longrightarrow> mirrored (disengage this tok cv) a b"
  by (auto simp: mirrored_def engaged_disengage)

lemma engage_mirrored: "mirrored cv a b \<Longrightarrow> mirrored (engage this tok cv) a b"
  by (auto simp: mirrored_def engaged_engage)

lemma drop_prior_mirrored: "mirrored cv a b \<Longrightarrow> mirrored (drop_prior this enemies ts cv) a b"
  by (induction ts arbitrary: cv) (simp_all add: disengage_mirrored)

lemma add_new_mirrored: "mirrored cv a b \<Longrightarrow> mirrored (add_new this ts cv) a b"
  by (induction ts arbitrary: cv) (simp_all add: engage_mirrored)

lemma updateFlanking_mirrored:
  "mirrored cv a b \<Longrightarrow> mirrored (fst (updateFlanking cv this commit en env)) a b"
  by (auto simp: updateFlanking_def add_new_mirrored drop_prior_mirrored
           split: sum.splits option.splits)

lemma onCreate_mirrored:
  assumes "mirrored cv a b"
  shows "mirrored (fst (onCreate cv this commit env)) a b"
  using assms unfolding mirrored_def onCreate_def Let_def
  by (auto simp: engaged_updateFlanking split: if_splits)

lemma onDelete_loop_engaged:
  "onDelete_loop this commit ts cv = (cv', None) \<Longrightarrow>
   set (engaged cv' t) =
     (if t \<in> set ts then set (engaged cv t) - {this} else set (engaged cv t))"
proof (induction ts arbitrary: cv)
  case Nil
  then show ?case by simp
next
  case (Cons x ts)
  then show ?case
    by (auto simp: Let_def set_set_delete split: if_splits)
qed

lemma onDelete_mirrored:
  assumes "onDelete cv this commit = (cv', None)" "mirrored cv a b"
  shows "mirrored cv' a b"
proof -
  from assms(1) obtain cv1
    where l: "onDelete_loop this commit (engaged cv this) cv = (cv1, None)"
      and c: "cv' = cv1\<lparr>engaged := (engaged cv1)(this := [])\<rparr>"
    by (auto simp: onDelete_def split: prod.splits option.splits)
  have e: "\<And>t. set (engaged cv1 t) =
             (if t \<in> set (engaged cv this) then set (engaged cv t) - {this}
              else set (engaged cv t))"
    using onDelete_loop_engaged[OF l] by simp
  show ?thesis using assms(2) unfolding mirrored_def c
    by (auto simp: e)
qed

text \<open>
  The unguarded call in \<^verbatim>\<open>_onDelete\<close>: with \<^verbatim>\<open>commit\<close> set and no actor on the engaged
  token \<open>B\<close>, deleting \<open>A\<close> throws after \<open>A\<close> has been taken out of the set of \<open>B\<close>
  and before the set of \<open>A\<close> is cleared.
\<close>

lemma onDelete_actorless_throws:
  "onDelete (ex_canvas\<lparr>has_actor := (\<lambda>_. True)(''B'' := False)\<rparr>) ''A'' True =
     (\<lparr>engaged = (\<lambda>_. [])(''A'' := [''B''], ''B'' := []),
       has_actor = (\<lambda>_. True)(''B'' := False)\<rparr>, Some ActorIsNull)"
  by (simp add: onDelete_def ex_canvas_def set_delete_def fun_upd_twist)

text \<open>
  C6, engagement symmetry as an invariant of the handlers.  Two tokens \<open>a\<close> and \<open>b\<close> whose engagement is mirrored before the call
  (\<open>b\<close> is in the engaged set of \<open>a\<close> exactly when \<open>a\<close> is in that of \<open>b\<close>) have it
  mirrored after \<^verbatim>\<open>updateFlanking\<close>, after the creation and update handlers, and after
  a deletion handler that runs to its end.  Every edge \<^verbatim>\<open>updateFlanking\<close> adds is
  added on both tokens and every edge it removes is removed on both tokens.  On a canvas
  where no token is engaged every pair is mirrored.
\<close>

theorem engagement_mirrored_preserved:
  "(mirrored cv a b \<longrightarrow>
      mirrored (fst (updateFlanking cv this commit enemies env)) a b \<and>
      mirrored (fst (onCreate cv this commit env)) a b \<and>
      mirrored (fst (onUpdate cv this commit env)) a b \<and>
      (snd (onDelete cv this commit) = None \<longrightarrow> mirrored (fst (onDelete cv this commit)) a b)) \<and>
   (tok \<in> set e \<and> tok \<notin> set (engaged cv this) \<longrightarrow>
      tok \<in> set (engaged (fst (updateFlanking cv this commit (Some e) env)) this) \<and>
      this \<in> set (engaged (fst (updateFlanking cv this commit (Some e) env)) tok)) \<and>
   (tok \<in> set (engaged cv this) \<and> tok \<notin> set e \<longrightarrow>
      tok \<notin> set (engaged (fst (updateFlanking cv this commit (Some e) env)) this) \<and>
      this \<notin> set (engaged (fst (updateFlanking cv this commit (Some e) env)) tok)) \<and>
   mirrored no_tokens a b"
proof -
  have del: "mirrored (fst (onDelete cv this commit)) a b"
    if "mirrored cv a b" "snd (onDelete cv this commit) = None"
    using onDelete_mirrored[of cv this commit "fst (onDelete cv this commit)" a b] that
    by (cases "onDelete cv this commit") auto
  have added: "tok \<in> set (engaged (fst (updateFlanking cv this commit (Some e) env)) this) \<and>
      this \<in> set (engaged (fst (updateFlanking cv this commit (Some e) env)) tok)"
    if "tok \<in> set e" "tok \<notin> set (engaged cv this)"
    using that by (auto simp: engaged_updateFlanking)
  have removed: "tok \<notin> set (engaged (fst (updateFlanking cv this commit (Some e) env)) this) \<and>
      this \<notin> set (engaged (fst (updateFlanking cv this commit (Some e) env)) tok)"
    if "tok \<in> set (engaged cv this)" "tok \<notin> set e"
    using that by (auto simp: engaged_updateFlanking)
  have init: "mirrored no_tokens a b"
    by (simp add: mirrored_def no_tokens_def)
  show ?thesis
    using updateFlanking_mirrored[of cv a b this commit enemies env]
          updateFlanking_mirrored[of cv a b this commit None env]
          onCreate_mirrored[of cv a b this commit env] del added removed init
    unfolding onUpdate_def by blast
qed

theorem engagement_mirrored_preserved_witness:
  "mirrored ex_canvas ''A'' ''B'' \<and>
   mirrored (fst (updateFlanking ex_canvas ''A'' True (Some [''C'']) ex_surroundings)) ''A'' ''B'' \<and>
   ''C'' \<in> set (engaged (fst (updateFlanking ex_canvas ''A'' True (Some [''C'']) ex_surroundings)) ''A'') \<and>
   ''A'' \<in> set (engaged (fst (updateFlanking ex_canvas ''A'' True (Some [''C'']) ex_surroundings)) ''C'') \<and>
   ''B'' \<notin> set (engaged (fst (updateFlanking ex_canvas ''A'' True (Some [''C'']) ex_surroundings)) ''A'') \<and>
   ''A'' \<notin> set (engaged (fst (updateFlanking ex_canvas ''A'' True (Some [''C'']) ex_surroundings)) ''B'') \<and>
   snd (onDelete ex_canvas ''A'' True) = None \<and>
   mirrored (fst (onDelete ex_canvas ''A'' True)) ''A'' ''B''"
  using engagement_mirrored_preserved
          [where cv = ex_canvas and a = "''A''" and b = "''B''" and this = "''A''"
             and commit = True and enemies = "Some [''C'']" and env = ex_surroundings
             and e = "[''C'']" and tok = "''C''"]
        engagement_mirrored_preserved
          [where cv = ex_canvas and a = "''A''" and b = "''B''" and this = "''A''"
             and commit = True and enemies = "Some [''C'']" and env = ex_surroundings
             and e = "[''C'']" and tok = "''B''"]
  by (simp add: ex_canvas_def mirrored_def onDelete_def set_delete_def)

text \<open>
  C6 without the condition on the state before the call fails after \<^verbatim>\<open>_draw\<close>,
  which assigns the computed set to
  \<^verbatim>\<open>this.engaged\<close> and writes nothing on the other tokens.  On a canvas with no
  engagement, token \<open>A\<close> is drawn next to its enemy \<open>B\<close> and then updated with the same
  computed set: \<^verbatim>\<open>updateFlanking\<close> finds \<open>B\<close> already engaged, skips it, and leaves
  \<open>B\<close> in the engaged set of \<open>A\<close> while \<open>A\<close> is not in that of \<open>B\<close>.
\<close>

theorem updateFlanking_after_draw_not_mirrored:
  "''B'' \<in> set (engaged (fst (updateFlanking (fst (draw no_tokens ''A'' ex_surroundings))
                                 ''A'' True None ex_surroundings)) ''A'') \<and>
   ''A'' \<notin> set (engaged (fst (updateFlanking (fst (draw no_tokens ''A'' ex_surroundings))
                                 ''A'' True None ex_surroundings)) ''B'')"
  by (simp add: updateFlanking_def draw_def computeEngagement_def ex_surroundings_def
                no_tokens_def)

subsection \<open>Talents and actions\<close>

lemma prepareTalent_counts:
  "tp_spent (points_talent (prepareTalent t st)) = tp_spent (points_talent st) + 1"
  "tp_total (points_talent (prepareTalent t st)) = tp_total (points_talent st)"
  "talentIds (prepareTalent t st) = insert (talent_id t) (talentIds st)"
  "warnings (prepareTalent t st) = warnings st"
  by (simp_all add: prepareTalent_def Let_def)

lemma prepareTalents_loop_counts:
  "tp_spent (points_talent (prepareTalents_loop ts st))
     = tp_spent (points_talent st) + int (length ts) \<and>
   tp_total (points_talent (prepareTalents_loop ts st)) = tp_total (points_talent st) \<and>
   talentIds (prepareTalents_loop ts st) = talentIds st \<union> talent_id ` set ts \<and>
   warnings (prepareTalents_loop ts st) = warnings st"
  by (induction ts arbitrary: st) (auto simp: prepareTalent_counts)

text \<open>What one talent adds to the three sets of the grimoire.\<close>

lemma prepareTalent_runes:
  "runes (known (prepareTalent t st)) =
     runes (known st) \<union>
     table_lookup RUNES ` {rn. rn \<noteq> [] \<and> talent_rune t = Some rn}"
  by (auto simp: prepareTalent_def Let_def split: option.splits)

lemma prepareTalent_inflections:
  "inflections (known (prepareTalent t st)) =
     inflections (known st) \<union>
     table_lookup INFLECTIONS ` {i. i \<noteq> [] \<and> talent_inflection t = Some i}"
  by (auto simp: prepareTalent_def Let_def split: option.splits)

lemma lookup_touch: "table_lookup GESTURES ''touch'' = Some ''touch''"
  by (simp add: table_lookup_def GESTURES_def)

lemma prepareTalent_gestures:
  "gestures (known (prepareTalent t st)) =
     gestures (known st) \<union>
     table_lookup GESTURES ` {ge. ge \<noteq> [] \<and> talent_gesture t = Some ge} \<union>
     (if js_truthy (talent_rune t) \<and> gestures (known st) = {} then {Some ''touch''} else {})"
  by (auto simp: prepareTalent_def Let_def js_truthy_def lookup_touch split: option.splits)

text \<open>The same for the loop, from any state.\<close>

lemma prepareTalents_loop_runes:
  "runes (known (prepareTalents_loop ts st)) =
     runes (known st) \<union>
     table_lookup RUNES ` {rn. rn \<noteq> [] \<and> (\<exists>t \<in> set ts. talent_rune t = Some rn)}"
proof (induction ts arbitrary: st)
  case Nil
  then show ?case by simp
next
  case (Cons t ts)
  show ?case
    unfolding prepareTalents_loop.simps Cons.IH prepareTalent_runes by auto
qed

lemma prepareTalents_loop_inflections:
  "inflections (known (prepareTalents_loop ts st)) =
     inflections (known st) \<union>
     table_lookup INFLECTIONS ` {i. i \<noteq> [] \<and> (\<exists>t \<in> set ts. talent_inflection t = Some i)}"
proof (induction ts arbitrary: st)
  case Nil
  then show ?case by simp
next
  case (Cons t ts)
  show ?case
    unfolding prepareTalents_loop.simps Cons.IH prepareTalent_inflections by auto
qed

lemma taught_gesture_empty:
  "table_lookup GESTURES ` {ge. ge \<noteq> [] \<and> talent_gesture t = Some ge} = {} \<longleftrightarrow>
     \<not> js_truthy (talent_gesture t)"
  by (auto simp: js_truthy_def split: option.splits)

lemma prepareTalents_loop_gestures:
  "gestures (known (prepareTalents_loop ts st)) =
     gestures (known st) \<union>
     table_lookup GESTURES ` {ge. ge \<noteq> [] \<and> (\<exists>t \<in> set ts. talent_gesture t = Some ge)} \<union>
     (if gestures (known st) = {} \<and> rune_first ts then {Some ''touch''} else {})"
proof (induction ts arbitrary: st)
  case Nil
  then show ?case by simp
next
  case (Cons t ts)
  define A where "A = gestures (known st)"
  define Bt where "Bt = table_lookup GESTURES ` {ge. ge \<noteq> [] \<and> talent_gesture t = Some ge}"
  define Bts where
    "Bts = table_lookup GESTURES ` {ge. ge \<noteq> [] \<and> (\<exists>u \<in> set ts. talent_gesture u = Some ge)}"
  define R where "R = js_truthy (talent_rune t)"
  define G where "G = js_truthy (talent_gesture t)"
  define F where "F = rune_first ts"
  define T where "T = {Some ''touch''}"
  have split_set:
    "{ge. ge \<noteq> [] \<and> (\<exists>u \<in> set (t # ts). talent_gesture u = Some ge)} =
       {ge. ge \<noteq> [] \<and> talent_gesture t = Some ge} \<union>
       {ge. ge \<noteq> [] \<and> (\<exists>u \<in> set ts. talent_gesture u = Some ge)}"
    by auto
  have img:
    "table_lookup GESTURES ` {ge. ge \<noteq> [] \<and> (\<exists>u \<in> set (t # ts). talent_gesture u = Some ge)}
       = Bt \<union> Bts"
    unfolding split_set image_Un Bt_def Bts_def ..
  have bt: "Bt = {} \<longleftrightarrow> \<not> G"
    unfolding Bt_def G_def by (rule taught_gesture_empty)
  have T: "T \<noteq> {}" by (simp add: T_def)
  have step: "gestures (known (prepareTalent t st)) = A \<union> Bt \<union> (if R \<and> A = {} then T else {})"
    unfolding A_def Bt_def R_def T_def by (rule prepareTalent_gestures)
  have ih: "gestures (known (prepareTalents_loop ts (prepareTalent t st))) =
              gestures (known (prepareTalent t st)) \<union> Bts \<union>
              (if gestures (known (prepareTalent t st)) = {} \<and> F then T else {})"
    unfolding Bts_def F_def T_def by (rule Cons.IH)
  have "gestures (known (prepareTalents_loop ts (prepareTalent t st))) =
          A \<union> (Bt \<union> Bts) \<union> (if A = {} \<and> (R \<or> (\<not> G \<and> F)) then T else {})"
    unfolding ih step using bt T by (cases R; cases G; cases F; cases "A = {}") auto
  then show ?case
    unfolding prepareTalents_loop.simps img rune_first.simps A_def R_def G_def F_def T_def .
qed

text \<open>
  \<open>rune_first\<close> in words: some talent teaches a rune and no talent before it teaches a
  gesture.
\<close>

lemma rune_first_iff:
  "rune_first ts \<longleftrightarrow>
     (\<exists>pre t post. ts = pre @ t # post \<and> js_truthy (talent_rune t) \<and>
        (\<forall>p \<in> set pre. \<not> js_truthy (talent_gesture p)))"
proof (induction ts)
  case Nil
  then show ?case by simp
next
  case (Cons x xs)
  show ?case
  proof
    assume l: "rune_first (x # xs)"
    show "\<exists>pre t post. x # xs = pre @ t # post \<and> js_truthy (talent_rune t) \<and>
            (\<forall>p \<in> set pre. \<not> js_truthy (talent_gesture p))"
    proof (cases "js_truthy (talent_rune x)")
      case True
      then have "x # xs = [] @ x # xs \<and> js_truthy (talent_rune x) \<and>
                 (\<forall>p \<in> set []. \<not> js_truthy (talent_gesture p))"
        by simp
      then show ?thesis by blast
    next
      case False
      with l have ng: "\<not> js_truthy (talent_gesture x)" and "rune_first xs" by auto
      with Cons.IH obtain pre t post where
        s: "xs = pre @ t # post" "js_truthy (talent_rune t)"
           "\<forall>p \<in> set pre. \<not> js_truthy (talent_gesture p)"
        by blast
      then have "x # xs = (x # pre) @ t # post \<and> js_truthy (talent_rune t) \<and>
                 (\<forall>p \<in> set (x # pre). \<not> js_truthy (talent_gesture p))"
        using ng by simp
      then show ?thesis by blast
    qed
  next
    assume "\<exists>pre t post. x # xs = pre @ t # post \<and> js_truthy (talent_rune t) \<and>
              (\<forall>p \<in> set pre. \<not> js_truthy (talent_gesture p))"
    then obtain pre t post where
      s: "x # xs = pre @ t # post" "js_truthy (talent_rune t)"
         "\<forall>p \<in> set pre. \<not> js_truthy (talent_gesture p)"
      by blast
    show "rune_first (x # xs)"
    proof (cases pre)
      case Nil
      with s(1,2) show ?thesis by simp
    next
      case (Cons y ys)
      with s(1) have "x = y" "xs = ys @ t # post" by simp_all
      with s(2,3) Cons Cons.IH have "\<not> js_truthy (talent_gesture x)" "rune_first xs"
        by auto
      then show ?thesis by simp
    qed
  qed
qed

lemma prepareTalents_known:
  "known (prepareTalents nm pts talents) =
   known (prepareTalents_loop talents
            \<lparr>talentIds = {}, known = \<lparr>runes = {}, gestures = {}, inflections = {}\<rparr>,
             points_talent = pts, warnings = []\<rparr>)"
  by (simp add: prepareTalents_def Let_def)

text \<open>The registry after a run of assignments: the last action granted under an id wins.\<close>

lemma fold_register_other:
  "\<forall>a \<in> set xs. action_id a \<noteq> k \<Longrightarrow> fold (register_action prep) xs m k = m k"
  by (induction xs arbitrary: m) (auto simp: register_action_def)

lemma fold_register_granted:
  "a \<in> set xs \<Longrightarrow>
   \<exists>a' \<in> set xs. action_id a' = action_id a \<and>
      fold (register_action prep) xs m (action_id a) = Some (prep a')"
proof (induction xs arbitrary: m a)
  case Nil
  then show ?case by simp
next
  case (Cons x xs)
  show ?case
  proof (cases "\<exists>b \<in> set xs. action_id b = action_id a")
    case True
    then obtain b where b: "b \<in> set xs" "action_id b = action_id a" by blast
    from Cons.IH[OF b(1), of "register_action prep x m"] b(2) show ?thesis by auto
  next
    case False
    then have n: "\<forall>b \<in> set xs. action_id b \<noteq> action_id a" by blast
    with Cons.prems have xa: "x = a" by auto
    have "fold (register_action prep) (x # xs) m (action_id a)
            = register_action prep x m (action_id a)"
      using fold_register_other[OF n, of prep "register_action prep x m"] by simp
    also have "\<dots> = Some (prep a)"
      unfolding register_action_def xa by simp
    finally show ?thesis using xa by auto
  qed
qed

lemma register_talent_other:
  "\<forall>a \<in> set (talent_actions t). action_id a \<noteq> k \<Longrightarrow> register_talent prep t m k = m k"
  unfolding register_talent_def by (rule fold_register_other)

lemma fold_register_talent:
  "(\<exists>t \<in> set ts. \<exists>a' \<in> set (talent_actions t). action_id a' = k) \<Longrightarrow>
   \<exists>t \<in> set ts. \<exists>a' \<in> set (talent_actions t). action_id a' = k \<and>
      fold (register_talent prep) ts m k = Some (prep a')"
proof (induction ts arbitrary: m)
  case Nil
  then show ?case by simp
next
  case (Cons t ts)
  show ?case
  proof (cases "\<exists>u \<in> set ts. \<exists>a' \<in> set (talent_actions u). action_id a' = k")
    case True
    from Cons.IH[OF True, of "register_talent prep t m"] show ?thesis by auto
  next
    case False
    then have rest: "\<And>m'. fold (register_talent prep) ts m' k = m' k"
    proof (induction ts)
      case Nil
      then show ?case by simp
    next
      case (Cons u us)
      then show ?case using register_talent_other[of u k prep] by auto
    qed
    from False Cons.prems obtain a where a: "a \<in> set (talent_actions t)" "action_id a = k"
      by auto
    from fold_register_granted[OF a(1), of prep m] a(2)
    obtain a' where "a' \<in> set (talent_actions t)" "action_id a' = k"
      "register_talent prep t m k = Some (prep a')"
      by (auto simp: register_talent_def)
    then show ?thesis using rest by auto
  qed
qed

text \<open>
  C7.  The talent pass adds 1 to the spent talent points for each owned talent, whatever
  the talent is, and sets \<open>available = total - spent\<close>.  It raises a warning exactly when
  \<open>available\<close> is negative, and returns its state either way.  The talent ids are those
  of the owned talents.  The grimoire holds exactly the runes, gestures and inflections
  the talents teach, and besides them the \<^verbatim>\<open>touch\<close> gesture exactly when some talent
  teaches a rune while no talent before it teaches a gesture: then no gesture is known
  at the moment the first rune is.  The action pass that follows registers, under the id
  of every action granted by an owned talent, an action granted by an owned talent under
  that id.  With 3 talents, a total of 2 and nothing spent before, \<open>available\<close> is \<open>-1\<close>
  and the warning is raised.
\<close>

theorem prepareTalents_spec:
  "(let st = prepareTalents nm pts talents in
     tp_spent (points_talent st) = tp_spent pts + int (length talents) \<and>
     tp_available (points_talent st) = tp_total pts - tp_spent (points_talent st) \<and>
     ((warnings st \<noteq> []) = (tp_available (points_talent st) < 0)) \<and>
     talentIds st = talent_id ` set talents \<and>
     runes (known st) =
       table_lookup RUNES ` {rn. rn \<noteq> [] \<and> (\<exists>u \<in> set talents. talent_rune u = Some rn)} \<and>
     inflections (known st) =
       table_lookup INFLECTIONS `
         {i. i \<noteq> [] \<and> (\<exists>u \<in> set talents. talent_inflection u = Some i)} \<and>
     gestures (known st) =
       table_lookup GESTURES `
         {ge. ge \<noteq> [] \<and> (\<exists>u \<in> set talents. talent_gesture u = Some ge)} \<union>
       (if \<exists>pre t post. talents = pre @ t # post \<and> js_truthy (talent_rune t) \<and>
              (\<forall>p \<in> set pre. \<not> js_truthy (talent_gesture p))
        then {Some ''touch''} else {}) \<and>
     (\<forall>u \<in> set talents. \<forall>a \<in> set (talent_actions u).
        \<exists>u' \<in> set talents. \<exists>a' \<in> set (talent_actions u'). action_id a' = action_id a \<and>
          prepareActions prep (known st) reload talents (action_id a) = Some (prep a')) \<and>
     (length talents = 3 \<and> tp_total pts = 2 \<and> tp_spent pts = 0 \<longrightarrow>
        tp_available (points_talent st) = -1 \<and> warnings st \<noteq> []))"
proof -
  define st0 where
    "st0 = \<lparr>talentIds = {}, known = \<lparr>runes = {}, gestures = {}, inflections = {}\<rparr>,
            points_talent = pts, warnings = []\<rparr>"
  define st where "st = prepareTalents nm pts talents"
  note loop = prepareTalents_loop_counts[of talents st0]
  have spent: "tp_spent (points_talent st) = tp_spent pts + int (length talents)"
    using loop by (simp add: st_def prepareTalents_def Let_def st0_def)
  have avail: "tp_available (points_talent st) = tp_total pts - tp_spent (points_talent st)"
    using loop by (simp add: st_def prepareTalents_def Let_def st0_def)
  have warn: "(warnings st \<noteq> []) = (tp_available (points_talent st) < 0)"
    using loop by (simp add: st_def prepareTalents_def Let_def st0_def)
  have ids: "talentIds st = talent_id ` set talents"
    using loop by (simp add: st_def prepareTalents_def Let_def st0_def)
  have kn: "known st = known (prepareTalents_loop talents st0)"
    by (simp add: st_def st0_def prepareTalents_known)
  have rn: "runes (known st) =
       table_lookup RUNES ` {rn. rn \<noteq> [] \<and> (\<exists>u \<in> set talents. talent_rune u = Some rn)}"
    unfolding kn prepareTalents_loop_runes by (simp add: st0_def)
  have inf: "inflections (known st) =
       table_lookup INFLECTIONS `
         {i. i \<noteq> [] \<and> (\<exists>u \<in> set talents. talent_inflection u = Some i)}"
    unfolding kn prepareTalents_loop_inflections by (simp add: st0_def)
  have ge: "gestures (known st) =
       table_lookup GESTURES `
         {ge. ge \<noteq> [] \<and> (\<exists>u \<in> set talents. talent_gesture u = Some ge)} \<union>
       (if \<exists>pre t post. talents = pre @ t # post \<and> js_truthy (talent_rune t) \<and>
              (\<forall>p \<in> set pre. \<not> js_truthy (talent_gesture p))
        then {Some ''touch''} else {})"
    unfolding kn prepareTalents_loop_gestures rune_first_iff[symmetric] by (simp add: st0_def)
  have acts:
    "\<exists>u' \<in> set talents. \<exists>a' \<in> set (talent_actions u'). action_id a' = action_id a \<and>
        prepareActions prep (known st) reload talents (action_id a) = Some (prep a')"
    if "u \<in> set talents" "a \<in> set (talent_actions u)" for u a
    unfolding prepareActions_def
    by (rule fold_register_talent) (use that in blast)
  have ex: "tp_available (points_talent st) = -1 \<and> warnings st \<noteq> []"
    if "length talents = 3" "tp_total pts = 2" "tp_spent pts = 0"
    using that spent avail warn by simp
  show ?thesis
    unfolding Let_def st_def[symmetric]
    apply (intro conjI)
    subgoal by (rule spent)
    subgoal by (rule avail)
    subgoal by (rule warn)
    subgoal by (rule ids)
    subgoal by (rule rn)
    subgoal by (rule inf)
    subgoal by (rule ge)
    subgoal using acts by blast
    subgoal using ex by blast
    done
qed

theorem prepareTalents_spec_witness:
  "tp_available (points_talent (prepareTalents ''Ayla'' ex_points ex_talents)) = -1 \<and>
   warnings (prepareTalents ''Ayla'' ex_points ex_talents) \<noteq> [] \<and>
   runes (known (prepareTalents ''Ayla'' ex_points ex_talents)) = {Some ''flame''} \<and>
   gestures (known (prepareTalents ''Ayla'' ex_points ex_talents))
     = {Some ''arrow'', Some ''touch''} \<and>
   inflections (known (prepareTalents ''Ayla'' ex_points ex_talents)) = {Some ''push''} \<and>
   runes (known (prepareTalents ''Ayla'' ex_points ex_talents_gesture_first))
     = {Some ''flame''} \<and>
   gestures (known (prepareTalents ''Ayla'' ex_points ex_talents_gesture_first))
     = {Some ''arrow''} \<and>
   prepareActions action_name (known (prepareTalents ''Ayla'' ex_points ex_talents)) False
     ex_talents ''a1'' = Some ''A1'' \<and>
   prepareActions action_name (known (prepareTalents ''Ayla'' ex_points ex_talents)) False
     ex_talents ''a2'' = Some ''A2'' \<and>
   prepareActions action_name (known (prepareTalents ''Ayla'' ex_points ex_talents)) False
     ex_talents ''a3'' = Some ''A3''"
  using prepareTalents_spec
          [where nm = "''Ayla''" and pts = ex_points and talents = ex_talents
             and prep = action_name and reload = False]
        prepareTalents_spec
          [where nm = "''Ayla''" and pts = ex_points and talents = ex_talents_gesture_first
             and prep = action_name and reload = False]
  by (simp add: Let_def ex_talents_def ex_talents_gesture_first_def ex_points_def
                prepareTalents_def prepareTalent_def table_lookup_def RUNES_def GESTURES_def
                INFLECTIONS_def prepareActions_def register_talent_def register_default_def
                register_action_def DEFAULT_ACTIONS_def)

subsection \<open>Cost of a spell\<close>

text \<open>
  C8.  The cost prepared for a spell is the cost of its gesture, with the action and
  focus cost of the inflection added when one is chosen.  Preparing the spell for an
  actor records a true cost.  When the actor knows \<^verbatim>\<open>bloodmagic000000\<close>, the health
  cost of the true cost is 10 times the focus cost the spell had, and its focus cost is 0;
  otherwise focus and health cost are kept.  While the composition state is not
  \<open>COMPOSED\<close>, the action and focus cost of the spell are 0 and the true cost keeps the
  amounts; in state \<open>COMPOSED\<close> the cost of the spell is the true cost.
\<close>

theorem spell_cost_spec:
  "cost_action (prepareCost sp) =
     cost_action (gesture_cost (spell_gesture sp)) +
     (case spell_inflection sp of None \<Rightarrow> 0 | Some i \<Rightarrow> cost_action (inflection_cost i)) \<and>
   cost_focus (prepareCost sp) =
     cost_focus (gesture_cost (spell_gesture sp)) +
     (case spell_inflection sp of None \<Rightarrow> 0 | Some i \<Rightarrow> cost_focus (inflection_cost i)) \<and>
   cost_health (prepareCost sp) = cost_health (gesture_cost (spell_gesture sp)) \<and>
   cost (prepareData sp) = prepareCost sp \<and>
   (\<exists>tc. trueCost (prepareForActor t s sp) = Some tc \<and>
      cost_action tc = cost_action (cost (prepareGesture t s sp)) \<and>
      (''bloodmagic000000'' \<in> t \<longrightarrow>
         cost_health tc = Some (10 * cost_focus (cost sp)) \<and> cost_focus tc = 0) \<and>
      (''bloodmagic000000'' \<notin> t \<longrightarrow>
         cost_health tc = cost_health (cost sp) \<and> cost_focus tc = cost_focus (cost sp)) \<and>
      (composition sp \<noteq> COMPOSED \<longrightarrow>
         cost_action (cost (prepareForActor t s sp)) = 0 \<and>
         cost_focus (cost (prepareForActor t s sp)) = 0 \<and>
         cost_health (cost (prepareForActor t s sp)) = cost_health tc) \<and>
      (composition sp = COMPOSED \<longrightarrow> cost (prepareForActor t s sp) = tc))"
  by (auto simp: prepareCost_def prepareData_def prepareForActor_def prepareGesture_def Let_def
           split: option.splits)

theorem spell_cost_spec_witness:
  "cost (prepareData ex_spell) = \<lparr>cost_action = 3, cost_focus = 2, cost_health = None\<rparr> \<and>
   trueCost (prepareForActor {''bloodmagic000000''} ex_status (prepareData ex_spell))
     = Some \<lparr>cost_action = 3, cost_focus = 0, cost_health = Some 20\<rparr> \<and>
   cost (prepareForActor {''bloodmagic000000''} ex_status (prepareData ex_spell))
     = \<lparr>cost_action = 0, cost_focus = 0, cost_health = Some 20\<rparr> \<and>
   cost (prepareForActor {''bloodmagic000000''} ex_status
           (prepareData (ex_spell\<lparr>composition := COMPOSED\<rparr>)))
     = \<lparr>cost_action = 3, cost_focus = 0, cost_health = Some 20\<rparr>"
  using spell_cost_spec [where sp = ex_spell and t = "{''bloodmagic000000''}" and s = ex_status]
        spell_cost_spec [where sp = "prepareData ex_spell" and t = "{''bloodmagic000000''}"
                           and s = ex_status]
        spell_cost_spec [where sp = "prepareData (ex_spell\<lparr>composition := COMPOSED\<rparr>)"
                           and t = "{''bloodmagic000000''}" and s = ex_status]
  by (simp add: ex_spell_def ex_status_def prepareData_def prepareCost_def prepareForActor_def
                prepareGesture_def Let_def)

subsection \<open>Standard ids of world items\<close>

lemma length_standardId: "length (standardId slugify it) = 16"
  by (simp add: standardId_def padEnd_def)

text \<open>
  The conflict the loop does detect: an item to rename whose standard id is the id of an
  item of the world.  Then the error is thrown and nothing is handed to the host.
\<close>

lemma standardize_loop_conflict:
  "\<exists>it \<in> set rest. standardId f it \<noteq> wi_id it \<and> standardId f it \<in> set (map wi_id items) \<Longrightarrow>
   \<exists>msg. standardize_loop f items rest deletions creations = Inl (ConflictError msg)"
proof (induction rest arbitrary: deletions creations)
  case Nil
  then show ?case by simp
next
  case (Cons x rest)
  show ?case
  proof (cases "wi_id x = standardId f x")
    case True
    with Cons.prems have "\<exists>it \<in> set rest. standardId f it \<noteq> wi_id it \<and>
                            standardId f it \<in> set (map wi_id items)"
      by auto
    from Cons.IH[OF this] True show ?thesis by (simp add: Let_def)
  next
    case False
    show ?thesis
    proof (cases "standardId f x \<in> set (map wi_id items)")
      case True
      with False show ?thesis by (simp add: Let_def)
    next
      case notin: False
      with Cons.prems have "\<exists>it \<in> set rest. standardId f it \<noteq> wi_id it \<and>
                              standardId f it \<in> set (map wi_id items)"
        by auto
      from Cons.IH[OF this] False notin show ?thesis by (simp add: Let_def)
    qed
  qed
qed

text \<open>
  Without such an item the loop renames: every item whose id is not standard is deleted
  and created again under its standard id, of 16 characters.
\<close>

lemma standardize_loop_renames:
  "\<forall>it \<in> set rest. standardId f it \<noteq> wi_id it \<longrightarrow> standardId f it \<notin> set (map wi_id items) \<Longrightarrow>
   standardize_loop f items rest deletions creations =
     Inr (deletions @ map wi_id (filter (\<lambda>it. wi_id it \<noteq> standardId f it) rest),
          creations @ map (\<lambda>it. it\<lparr>wi_id := standardId f it\<rparr>)
                        (filter (\<lambda>it. wi_id it \<noteq> standardId f it) rest))"
  by (induction rest arbitrary: deletions creations) (auto simp: Let_def)

text \<open>
  C9.  Two world items with the same name, neither carrying the standard id, end up
  with the same standard id \<^verbatim>\<open>sword00000000000\<close>.  No item of the world has that id,
  so the check \<^verbatim>\<open>game.items.has(standardId)\<close> finds nothing: no error is thrown, both
  original ids are handed over for deletion, which leaves no item, and two items with
  the same id are handed over for creation.
\<close>

theorem standardizeItemIds_collision_undetected:
  "standardizeItemIds (\<lambda>s. s) ex_items =
     Inr ([''aaaaaaaaaaaaaaaa'', ''bbbbbbbbbbbbbbbb''],
          [\<lparr>wi_id = ''sword00000000000'', wi_name = ''sword''\<rparr>,
           \<lparr>wi_id = ''sword00000000000'', wi_name = ''sword''\<rparr>]) \<and>
   deleteDocuments [''aaaaaaaaaaaaaaaa'', ''bbbbbbbbbbbbbbbb''] ex_items = []"
  by (simp add: standardizeItemIds_def ex_items_def standardId_def padEnd_def Let_def
                deleteDocuments_def eval_nat_numeral)

subsection \<open>Resolution of the equipped armor\<close>

text \<open>
  C10. With more than one armor flagged as equipped, \<^verbatim>\<open>_prepareArmor\<close> warns and
  returns the unarmored substitute, not one of the equipped armors: the filtered array is
  replaced by its own first element, and indexing that item with \<open>[0]\<close> is undefined.
  With exactly one equipped armor that armor is returned without a warning, and with none
  the unarmored substitute is returned without a warning.
\<close>

theorem prepareArmor_spec:
  "(length (filter equipped armorItems) > 1 \<longrightarrow>
      fst (prepareArmor nm unarmored armorItems) \<noteq> [] \<and>
      snd (prepareArmor nm unarmored armorItems) = unarmored \<and>
      (unarmored \<notin> set armorItems \<longrightarrow>
         snd (prepareArmor nm unarmored armorItems) \<notin> set (filter equipped armorItems))) \<and>
   (filter equipped armorItems = [a] \<longrightarrow> prepareArmor nm unarmored armorItems = ([], a)) \<and>
   (filter equipped armorItems = [] \<longrightarrow> prepareArmor nm unarmored armorItems = ([], unarmored))"
  by (auto simp: prepareArmor_def getUnarmoredArmor_def Let_def split: list.splits)

theorem prepareArmor_spec_witness:
  "prepareArmor ''Ayla'' \<lparr>item_name = ''Unarmored'', equipped = True\<rparr>
     [\<lparr>item_name = ''Chain'', equipped = True\<rparr>, \<lparr>item_name = ''Robe'', equipped = False\<rparr>,
      \<lparr>item_name = ''Plate'', equipped = True\<rparr>]
     = ([''Actor Ayla has more than one equipped armor.''], \<lparr>item_name = ''Unarmored'', equipped = True\<rparr>) \<and>
   prepareArmor ''Ayla'' \<lparr>item_name = ''Unarmored'', equipped = True\<rparr>
     [\<lparr>item_name = ''Robe'', equipped = False\<rparr>, \<lparr>item_name = ''Plate'', equipped = True\<rparr>]
     = ([], \<lparr>item_name = ''Plate'', equipped = True\<rparr>) \<and>
   prepareArmor ''Ayla'' \<lparr>item_name = ''Unarmored'', equipped = True\<rparr>
     [\<lparr>item_name = ''Robe'', equipped = False\<rparr>]
     = ([], \<lparr>item_name = ''Unarmored'', equipped = True\<rparr>)"
  using prepareArmor_spec
          [of "[\<lparr>item_name = ''Chain'', equipped = True\<rparr>, \<lparr>item_name = ''Robe'', equipped = False\<rparr>,
                \<lparr>item_name = ''Plate'', equipped = True\<rparr>]"
              "''Ayla''" "\<lparr>item_name = ''Unarmored'', equipped = True\<rparr>"]
        prepareArmor_spec
          [of "[\<lparr>item_name = ''Robe'', equipped = False\<rparr>, \<lparr>item_name = ''Plate'', equipped = True\<rparr>]"
              "''Ayla''" "\<lparr>item_name = ''Unarmored'', equipped = True\<rparr>"
              "\<lparr>item_name = ''Plate'', equipped = True\<rparr>"]
        prepareArmor_spec
          [of "[\<lparr>item_name = ''Robe'', equipped = False\<rparr>]"
              "''Ayla''" "\<lparr>item_name = ''Unarmored'', equipped = True\<rparr>"]
  by (simp add: prepareArmor_def Let_def)

end
